theory Spec2Isabelle
  imports Main "HOL-Library.Word"
begin

section \<open>Go standard library functions used by the provider\<close>

text \<open>
  Go strings are byte sequences; they are modelled as \<open>string\<close> (a list of \<open>char\<close>,
  one per byte).
\<close>

text \<open>\<^verbatim>\<open>strings.HasSuffix(s, suffix)\<close>\<close>

definition HasSuffix :: "string \<Rightarrow> string \<Rightarrow> bool" where
  "HasSuffix s suffix =
     (length suffix \<le> length s \<and> drop (length s - length suffix) s = suffix)"

text \<open>\<^verbatim>\<open>strings.TrimSuffix(s, suffix)\<close>: \<open>s\<close> without the trailing \<open>suffix\<close>, or \<open>s\<close> itself
  when it does not end with \<open>suffix\<close>.\<close>

definition TrimSuffix :: "string \<Rightarrow> string \<Rightarrow> string" where
  "TrimSuffix s suffix =
     (if HasSuffix s suffix then take (length s - length suffix) s else s)"

text \<open>\<^verbatim>\<open>strings.HasPrefix(s, prefix)\<close> and \<^verbatim>\<open>strings.TrimPrefix(s, prefix)\<close>\<close>

definition HasPrefix :: "string \<Rightarrow> string \<Rightarrow> bool" where
  "HasPrefix s pre = (length pre \<le> length s \<and> take (length pre) s = pre)"

definition TrimPrefix :: "string \<Rightarrow> string \<Rightarrow> string" where
  "TrimPrefix s pre = (if HasPrefix s pre then drop (length pre) s else s)"

text \<open>
  \<^verbatim>\<open>strings.SplitN(s, sep, 2)\<close> for a separator of one byte: the text before the first
  occurrence of the separator and everything after it, or \<open>s\<close> alone when the separator
  does not occur.
\<close>

definition SplitN2 :: "string \<Rightarrow> char \<Rightarrow> string list" where
  "SplitN2 s sep =
     (if sep \<in> set s
      then [takeWhile (\<lambda>c. c \<noteq> sep) s, tl (dropWhile (\<lambda>c. c \<noteq> sep) s)]
      else [s])"

text \<open>
  \<^verbatim>\<open>strconv.ParseUint(s, 10, bitSize)\<close>. The empty string is a syntax error. The loop
  reads the bytes from the left: a byte that is not a decimal digit is a syntax error;
  a value that would pass \<open>maxUint64\<close> or the largest value of \<open>bitSize\<close> bits is a range
  error. Signs and underscores are not accepted in base 10.
\<close>

datatype parse_error = ErrSyntax | ErrRange

definition isDigit :: "char \<Rightarrow> bool" where
  "isDigit c =
     (of_char CHR ''0'' \<le> (of_char c :: nat) \<and> (of_char c :: nat) \<le> of_char CHR ''9'')"

definition digitVal :: "char \<Rightarrow> nat" where
  "digitVal c = of_char c - of_char CHR ''0''"

fun ParseUint_loop :: "nat \<Rightarrow> nat \<Rightarrow> string \<Rightarrow> parse_error + nat" where
  "ParseUint_loop maxVal n [] = Inr n"
| "ParseUint_loop maxVal n (c # cs) =
     (if \<not> isDigit c then Inl ErrSyntax
      else if n \<ge> 1844674407370955162 then Inl ErrRange
      else let n1 = n * 10 + digitVal c in
        if n1 > maxVal then Inl ErrRange else ParseUint_loop maxVal n1 cs)"

definition ParseUint :: "string \<Rightarrow> nat \<Rightarrow> parse_error + nat" where
  "ParseUint s bitSize =
     (if s = [] then Inl ErrSyntax else ParseUint_loop (2 ^ bitSize - 1) 0 s)"

text \<open>
  \<^verbatim>\<open>strconv.Itoa(i)\<close>: the decimal digits of \<open>i\<close>, most significant first, after a minus
  sign when \<open>i\<close> is negative. The digits come from the table \<^verbatim>\<open>"0123456789"\<close>.
\<close>

definition digitChar :: "nat \<Rightarrow> char" where
  "digitChar d = ''0123456789'' ! d"

function formatDec :: "nat \<Rightarrow> string" where
  "formatDec n =
     (if n < 10 then [digitChar n] else formatDec (n div 10) @ [digitChar (n mod 10)])"
  by pat_completeness auto
termination
  by (relation "measure id") auto

declare formatDec.simps [simp del]

definition Itoa :: "int \<Rightarrow> string" where
  "Itoa i = (if i < 0 then CHR ''-'' # formatDec (nat (- i)) else formatDec (nat i))"

text \<open>
  \<^verbatim>\<open>time.Duration\<close> is a signed 64-bit count of nanoseconds, \<^verbatim>\<open>time.Second\<close> is
  \<open>10\<^sup>9\<close> of them, and multiplication wraps around.
\<close>

type_synonym Duration = "64 word"

definition Second :: Duration where
  "Second = 1000000000"

text \<open>
  \<^verbatim>\<open>int(d.Seconds())\<close>: the duration in seconds, truncated towards zero. Go computes
  \<^verbatim>\<open>Seconds()\<close> in \<^verbatim>\<open>float64\<close> as whole seconds plus the remaining nanoseconds
  divided by \<open>10\<^sup>9\<close>; the conversion to \<^verbatim>\<open>int\<close> drops the fraction. For a
  duration of whole seconds the floating-point value is exact. The model is the exact
  truncated quotient.
\<close>

definition Seconds_int :: "Duration \<Rightarrow> int" where
  "Seconds_int d =
     (let n = sint d in if n < 0 then - ((- n) div 1000000000) else n div 1000000000)"

section \<open>Data model (models.go and the libdns record types)\<close>

text \<open>
  \<^verbatim>\<open>type dsDNSRecord struct\<close>, the provider's flat record. Go's \<^verbatim>\<open>int\<close> fields hold the
  numbers decoded from JSON; they are modelled as \<open>int\<close>.
\<close>

record dsDNSRecord =
  ID :: int
  Host :: string
  Data :: string
  Type :: string
  TTL :: int
  Priority :: string
  Weight :: string
  Port :: string

text \<open>The zero value \<^verbatim>\<open>dsDNSRecord{}\<close>.\<close>

definition dsDNSRecord_zero :: dsDNSRecord where
  "dsDNSRecord_zero =
     \<lparr>ID = 0, Host = [], Data = [], Type = [], TTL = 0,
      Priority = [], Weight = [], Port = []\<rparr>"

text \<open>\<^verbatim>\<open>type Service struct\<close> and \<^verbatim>\<open>type dsZone struct\<close>\<close>

record Service =
  DNS :: bool
  Email :: bool
  Registrar :: bool
  Webhotel :: string

record dsZone =
  zone_Name :: string
  zone_ID :: int
  ExpiryDate :: string
  Nameservers :: "string list"
  RegisteredDate :: string
  Registrant :: string
  Renew :: bool
  Services :: Service
  Status :: string

text \<open>
  The record types of the libdns library that the provider reads and builds:
  \<^verbatim>\<open>libdns.RR\<close>, \<^verbatim>\<open>libdns.MX\<close> and \<^verbatim>\<open>libdns.SRV\<close>, with their fields. A value of
  the interface \<^verbatim>\<open>libdns.Record\<close> is one of these or a record of another kind of the
  library (address, text, ...), which the provider only ever flattens; the type
  parameter \<open>'o\<close> stands for those.
\<close>

record RR =
  RR_Name :: string
  RR_TTL :: Duration
  RR_Type :: string
  RR_Data :: string

record MX =
  MX_Name :: string
  MX_TTL :: Duration
  MX_Preference :: "16 word"
  MX_Target :: string

record SRV =
  SRV_Service :: string
  SRV_Transport :: string
  SRV_Name :: string
  SRV_TTL :: Duration
  SRV_Priority :: "16 word"
  SRV_Weight :: "16 word"
  SRV_Port :: "16 word"
  SRV_Target :: string

datatype 'o Record = RR_Record RR | MX_Record MX | SRV_Record SRV | Other_Record 'o

text \<open>
  Errors. A transport failure (connection error or HTTP status of 400 and above) carries
  its message; the others are the errors the provider builds with \<^verbatim>\<open>fmt.Errorf\<close>, with
  the values they report.
\<close>

datatype error =
    TransportError string
  | DecodeError
  | ExpectedOneZone nat string
  | InvalidPriority string parse_error
  | InvalidWeight string parse_error
  | InvalidPort string parse_error
  | NotEnoughFields string
  | LibdnsError string
  | ParsingRecord dsDNSRecord error

section \<open>Record codec (models.go)\<close>

text \<open>
  \<^verbatim>\<open>func (r dsDNSRecord) libdnsRecord() (libdns.Record, error)\<close>. The method
  \<^verbatim>\<open>RR.Parse\<close> of the libdns library, called in the default branch, is the parameter
  \<open>Parse\<close>.
\<close>

definition libdnsRecord :: "(RR \<Rightarrow> error + 'o Record) \<Rightarrow> dsDNSRecord \<Rightarrow> error + 'o Record" where
  "libdnsRecord Parse r =
     (if Type r = ''MX'' then
        (case ParseUint (Priority r) 16 of
           Inl err \<Rightarrow> Inl (InvalidPriority (Priority r) err)
         | Inr priority \<Rightarrow>
             Inr (MX_Record
               \<lparr>MX_Name = Host r,
                MX_TTL = word_of_int (TTL r) * Second,
                MX_Preference = of_nat priority,
                MX_Target = Data r\<rparr>))
      else if Type r = ''SRV'' then
        (case ParseUint (Priority r) 16 of
           Inl err \<Rightarrow> Inl (InvalidPriority (Priority r) err)
         | Inr priority \<Rightarrow>
        (case ParseUint (Weight r) 16 of
           Inl err \<Rightarrow> Inl (InvalidWeight (Weight r) err)
         | Inr weight \<Rightarrow>
        (case ParseUint (Port r) 16 of
           Inl err \<Rightarrow> Inl (InvalidPort (Port r) err)
         | Inr port \<Rightarrow>
             (let parts = SplitN2 (Host r) CHR ''.'' in
              if length parts < 2 then Inl (NotEnoughFields (Host r))
              else Inr (SRV_Record
                \<lparr>SRV_Service = TrimPrefix (parts ! 0) ''_'',
                 SRV_Transport = TrimPrefix (parts ! 1) ''_'',
                 SRV_Name = Host r,
                 SRV_TTL = word_of_int (TTL r) * Second,
                 SRV_Priority = of_nat priority,
                 SRV_Weight = of_nat weight,
                 SRV_Port = of_nat port,
                 SRV_Target = Data r\<rparr>)))))
      else
        Parse \<lparr>RR_Name = Host r,
               RR_TTL = word_of_int (TTL r) * Second,
               RR_Type = Type r,
               RR_Data = Data r\<rparr>)"

text \<open>
  \<^verbatim>\<open>func libdnsRecordTodsDNSRecord(r libdns.Record) (dsDNSRecord, error)\<close>. The method
  \<^verbatim>\<open>RR()\<close> of the interface \<^verbatim>\<open>libdns.Record\<close>, the flattened view of a record, is the
  parameter \<open>toRR\<close>. The identifier is never set: it keeps the zero value.
\<close>

definition libdnsRecordTodsDNSRecord :: "('o Record \<Rightarrow> RR) \<Rightarrow> 'o Record \<Rightarrow> error + dsDNSRecord" where
  "libdnsRecordTodsDNSRecord toRR r =
     (let rr = toRR r;
          dsRecord = dsDNSRecord_zero
            \<lparr>Host := RR_Name rr,
             TTL := Seconds_int (RR_TTL rr),
             Type := RR_Type rr,
             Data := RR_Data rr\<rparr>
      in Inr (case r of
           MX_Record rec \<Rightarrow> dsRecord\<lparr>Priority := Itoa (uint (MX_Preference rec))\<rparr>
         | SRV_Record rec \<Rightarrow>
             dsRecord
               \<lparr>Priority := Itoa (uint (SRV_Priority rec)),
                Port := Itoa (uint (SRV_Port rec)),
                Weight := Itoa (uint (SRV_Weight rec)),
                Data := SRV_Target rec\<rparr>
         | _ \<Rightarrow> dsRecord))"

subsection \<open>Instances of the library's methods\<close>

text \<open>
  The libdns library is not part of the repository. Two instances of its methods, used
  where a concrete record is evaluated.

  Modelled from the spec: the method \<^verbatim>\<open>RR()\<close> of libdns is missing from the sources.
  The specification says of it: every variant exposes a canonical flattened view with
  fields name, type, data, time-to-live, and the additional fields of a variant
  (mail-exchange: preference; service: priority, weight, port, target) are not present
  in the flattened view. Records of other kinds are represented by their view.
\<close>

definition flattened_view :: "RR Record \<Rightarrow> RR" where
  "flattened_view r =
     (case r of
        RR_Record rr \<Rightarrow> rr
      | MX_Record m \<Rightarrow>
          \<lparr>RR_Name = MX_Name m, RR_TTL = MX_TTL m, RR_Type = ''MX'', RR_Data = MX_Target m\<rparr>
      | SRV_Record s \<Rightarrow>
          \<lparr>RR_Name = SRV_Name s, RR_TTL = SRV_TTL s, RR_Type = ''SRV'', RR_Data = []\<rparr>
      | Other_Record rr \<Rightarrow> rr)"

text \<open>
  Modelled from the spec: the method \<^verbatim>\<open>RR.Parse\<close> of libdns is missing from the sources.
  The specification says of the default branch: all other types fall back to a generic
  flattened record with no subtype parsing.
\<close>

definition generic_Parse :: "RR \<Rightarrow> error + RR Record" where
  "generic_Parse rr = Inr (RR_Record rr)"

section \<open>Name canonicalization (client.go)\<close>

text \<open>\<^verbatim>\<open>func removeFQDNTrailingDot(fqdn string) string\<close>\<close>

definition removeFQDNTrailingDot :: "string \<Rightarrow> string" where
  "removeFQDNTrailingDot fqdn = TrimSuffix fqdn ''.''"

text \<open>\<^verbatim>\<open>func normalizeRecordName(recordName string, zone string) string\<close>\<close>

definition normalizeRecordName :: "string \<Rightarrow> string \<Rightarrow> string" where
  "normalizeRecordName recordName zone =
     (let normalized = removeFQDNTrailingDot recordName;
          normalized = TrimSuffix normalized (removeFQDNTrailingDot zone);
          normalized = (if normalized = '''' then ''@'' else normalized)
      in removeFQDNTrailingDot normalized)"

text \<open>
  The canonicalization rule in the words of the specification, step by step: strip the
  trailing dot from the name and from the zone; if the name ends with the zone, strip
  that suffix; if the remainder is empty, substitute \<open>@\<close>; strip any resulting trailing
  dot.
\<close>

definition strip_trailing_dot :: "string \<Rightarrow> string" where
  "strip_trailing_dot s = (if s \<noteq> [] \<and> last s = CHR ''.'' then butlast s else s)"

definition normalize_spec :: "string \<Rightarrow> string \<Rightarrow> string" where
  "normalize_spec name zone =
     (let n = strip_trailing_dot name;
          z = strip_trailing_dot zone;
          r = (if length z \<le> length n \<and> drop (length n - length z) n = z
               then take (length n - length z) n else n);
          r = (if r = [] then ''@'' else r)
      in strip_trailing_dot r)"

section \<open>Transport and provider state (client.go, provider.go)\<close>

text \<open>
  The requests the provider sends. The URL is kept in its parts: the query for a domain
  carries the domain name that is put into the URL (URL escaping, which is injective, is
  left out); the others carry the zone identifier and, where the URL has one, the record
  identifier. A record in a request is the body, the JSON encoding of that record.
\<close>

datatype request =
    GET_domains string
  | GET_dns int
  | DELETE_dns int int
  | POST_dns int dsDNSRecord
  | POST_dns_record int int dsDNSRecord

text \<open>
  The decoded body of a successful response: a JSON array of zones, a JSON array of
  records, one JSON record, or something that is none of these (an empty body).
\<close>

datatype response =
    Zones "dsZone list"
  | Records "dsDNSRecord list"
  | OneRecord dsDNSRecord
  | NoContent

text \<open>
  The transport is an external collaborator: it takes the state of the remote side and
  a request and gives an error or a response, and the next state of the remote side.
  Every theorem below holds for every transport.
\<close>

type_synonym 'w transport = "'w \<Rightarrow> request \<Rightarrow> (error + response) \<times> 'w"

text \<open>
  \<^verbatim>\<open>type Provider struct\<close>: the zone cache and the record cache (a nil map reads as the
  empty map). The credentials are part of the transport. The state also holds the remote
  side and the log of the requests sent so far, oldest first, so that "no request is
  sent" can be stated. The mutexes are left out: the model is sequential.
\<close>

record 'w Provider =
  zones :: "string \<rightharpoonup> dsZone"
  knownRecords :: "string \<rightharpoonup> dsDNSRecord list"
  remote :: 'w
  sent :: "request list"

text \<open>
  \<^verbatim>\<open>func (p *Provider) doRequest(...)\<close> up to the decoding of the body: the request is
  sent, and a failure of the transport or a status of 400 and above is an error.
  Building a request (\<^verbatim>\<open>http.NewRequestWithContext\<close>) and encoding a record
  (\<^verbatim>\<open>json.Marshal\<close>) do not fail for the methods, URLs and records used here, so their
  error branches are left out of the callers.
\<close>

definition doRequest :: "'w transport \<Rightarrow> 'w Provider \<Rightarrow> request \<Rightarrow> (error + response) \<times> 'w Provider" where
  "doRequest T p req =
     (case T (remote p) req of
        (res, w) \<Rightarrow> (res, p\<lparr>remote := w, sent := sent p @ [req]\<rparr>))"

text \<open>
  The decoding step of \<^verbatim>\<open>doRequest\<close>, \<^verbatim>\<open>json.NewDecoder(response.Body).Decode(&result)\<close>,
  for the three types of \<^verbatim>\<open>result\<close> that the callers pass: a body of another shape is
  a decoding error.
\<close>

definition decodeZones :: "response \<Rightarrow> error + dsZone list" where
  "decodeZones resp = (case resp of Zones zs \<Rightarrow> Inr zs | _ \<Rightarrow> Inl DecodeError)"

definition decodeRecords :: "response \<Rightarrow> error + dsDNSRecord list" where
  "decodeRecords resp = (case resp of Records rs \<Rightarrow> Inr rs | _ \<Rightarrow> Inl DecodeError)"

definition decodeRecord :: "response \<Rightarrow> error + dsDNSRecord" where
  "decodeRecord resp = (case resp of OneRecord r \<Rightarrow> Inr r | _ \<Rightarrow> Inl DecodeError)"

text \<open>\<^verbatim>\<open>const defaultTtl = time.Duration(2 * time.Minute)\<close>, as \<^verbatim>\<open>int(defaultTtl.Seconds())\<close>\<close>

definition defaultTtl_seconds :: int where
  "defaultTtl_seconds = 120"

text \<open>\<^verbatim>\<open>func (p *Provider) getDomainInfo(ctx, token, secret, zone) (dsZone, error)\<close>\<close>

definition getDomainInfo :: "'w transport \<Rightarrow> 'w Provider \<Rightarrow> string \<Rightarrow> (error + dsZone) \<times> 'w Provider" where
  "getDomainInfo T p zone =
     (case zones p zone of
        Some z \<Rightarrow> (Inr z, p)
      | None \<Rightarrow>
         (case doRequest T p (GET_domains (removeFQDNTrailingDot zone)) of
            (Inl err, p1) \<Rightarrow> (Inl err, p1)
          | (Inr resp, p1) \<Rightarrow>
             (case decodeZones resp of
                Inl err \<Rightarrow> (Inl err, p1)
              | Inr zs \<Rightarrow>
                 if length zs \<noteq> 1 then (Inl (ExpectedOneZone (length zs) zone), p1)
                 else (Inr (zs ! 0), p1\<lparr>zones := (zones p1)(zone \<mapsto> zs ! 0)\<rparr>))))"

text \<open>\<^verbatim>\<open>func (p *Provider) getAllDomainRecords(ctx, token, secret, zone) ([]dsDNSRecord, error)\<close>\<close>

definition getAllDomainRecords :: "'w transport \<Rightarrow> 'w Provider \<Rightarrow> string \<Rightarrow> (error + dsDNSRecord list) \<times> 'w Provider" where
  "getAllDomainRecords T p zone =
     (case getDomainInfo T p zone of
        (Inl err, p1) \<Rightarrow> (Inl err, p1)
      | (Inr domain, p1) \<Rightarrow>
         (case doRequest T p1 (GET_dns (zone_ID domain)) of
            (Inl err, p2) \<Rightarrow> (Inl err, p2)
          | (Inr resp, p2) \<Rightarrow>
             (case decodeRecords resp of
                Inl err \<Rightarrow> (Inl err, p2)
              | Inr result \<Rightarrow>
                 (Inr result, p2\<lparr>knownRecords := (knownRecords p2)(zone \<mapsto> result)\<rparr>))))"

text \<open>
  \<^verbatim>\<open>func (p *Provider) getRecordFromKnownRecords(record, zone) dsDNSRecord\<close>: the loop
  over the cached records of the zone, then the function.
\<close>

fun findKnownRecord :: "dsDNSRecord \<Rightarrow> dsDNSRecord list \<Rightarrow> dsDNSRecord" where
  "findKnownRecord record [] = dsDNSRecord_zero"
| "findKnownRecord record (rec # zoneRecords) =
     (if ID record = ID rec \<and> ID record \<noteq> 0 \<and> ID rec \<noteq> 0 then rec
      else if Host record = Host rec \<and> Data record = Data rec \<and> ID rec \<noteq> 0 then rec
      else findKnownRecord record zoneRecords)"

definition getRecordFromKnownRecords :: "dsDNSRecord \<Rightarrow> string \<Rightarrow> 'w Provider \<Rightarrow> dsDNSRecord" where
  "getRecordFromKnownRecords record zone p =
     (case knownRecords p zone of
        Some zoneRecords \<Rightarrow> findKnownRecord record zoneRecords
      | None \<Rightarrow> dsDNSRecord_zero)"

text \<open>
  \<^verbatim>\<open>func (p *Provider) removeRecordFromKnownRecords(record, zone) bool\<close>: the loop, which
  sets the identifier of the first entry with the record's non-zero identifier to zero
  in place, then the function.
\<close>

fun zeroKnownRecord :: "dsDNSRecord \<Rightarrow> dsDNSRecord list \<Rightarrow> bool \<times> dsDNSRecord list" where
  "zeroKnownRecord record [] = (False, [])"
| "zeroKnownRecord record (rec # zoneRecords) =
     (if ID record = ID rec \<and> ID record \<noteq> 0 then (True, rec\<lparr>ID := 0\<rparr> # zoneRecords)
      else (case zeroKnownRecord record zoneRecords of
              (found, zoneRecords') \<Rightarrow> (found, rec # zoneRecords')))"

definition removeRecordFromKnownRecords :: "dsDNSRecord \<Rightarrow> string \<Rightarrow> 'w Provider \<Rightarrow> bool \<times> 'w Provider" where
  "removeRecordFromKnownRecords record zone p =
     (case knownRecords p zone of
        Some zoneRecords \<Rightarrow>
          (case zeroKnownRecord record zoneRecords of
             (found, zoneRecords') \<Rightarrow>
               (found, p\<lparr>knownRecords := (knownRecords p)(zone \<mapsto> zoneRecords')\<rparr>))
      | None \<Rightarrow> (False, p))"

text \<open>\<^verbatim>\<open>func (p *Provider) getDNSRecord(ctx, token, secret, zone, record) (dsDNSRecord, error)\<close>\<close>

definition getDNSRecord :: "'w transport \<Rightarrow> 'w Provider \<Rightarrow> string \<Rightarrow> dsDNSRecord \<Rightarrow> (error + dsDNSRecord) \<times> 'w Provider" where
  "getDNSRecord T p zone record =
     (let dsrecord = getRecordFromKnownRecords record zone p in
      if dsDNSRecord_zero \<noteq> dsrecord then (Inr dsrecord, p)
      else
        (case getAllDomainRecords T p zone of
           (Inl err, p1) \<Rightarrow> (Inl err, p1)
         | (Inr _, p1) \<Rightarrow> (Inr (getRecordFromKnownRecords record zone p1), p1)))"

text \<open>\<^verbatim>\<open>func (p *Provider) deleteDNSRecord(ctx, token, secret, zone, record) error\<close>\<close>

definition deleteDNSRecord :: "'w transport \<Rightarrow> 'w Provider \<Rightarrow> string \<Rightarrow> dsDNSRecord \<Rightarrow> (error + unit) \<times> 'w Provider" where
  "deleteDNSRecord T p zone record =
     (case getDomainInfo T p zone of
        (Inl err, p1) \<Rightarrow> (Inl err, p1)
      | (Inr domain, p1) \<Rightarrow>
         (case getDNSRecord T p1 zone record of
            (Inl err, p2) \<Rightarrow> (Inl err, p2)
          | (Inr dsrecord, p2) \<Rightarrow>
             if dsDNSRecord_zero = dsrecord then (Inr (), p2)
             else
               (case doRequest T p2 (DELETE_dns (zone_ID domain) (ID dsrecord)) of
                  (Inl err, p3) \<Rightarrow> (Inl err, p3)
                | (Inr _, p3) \<Rightarrow>
                    (Inr (), snd (removeRecordFromKnownRecords dsrecord zone p3)))))"

text \<open>\<^verbatim>\<open>func (p *Provider) createDNSRecord(ctx, token, secret, zone, record) (dsDNSRecord, error)\<close>\<close>

definition createDNSRecord :: "'w transport \<Rightarrow> 'w Provider \<Rightarrow> string \<Rightarrow> dsDNSRecord \<Rightarrow> (error + dsDNSRecord) \<times> 'w Provider" where
  "createDNSRecord T p zone record0 =
     (case getDomainInfo T p zone of
        (Inl err, p1) \<Rightarrow> (Inl err, p1)
      | (Inr domain, p1) \<Rightarrow>
         (let record = record0\<lparr>Host := normalizeRecordName (Host record0) zone\<rparr>;
              reqData = (if TTL record = 0 then record\<lparr>TTL := defaultTtl_seconds\<rparr> else record)
          in case doRequest T p1 (POST_dns (zone_ID domain) reqData) of
               (Inl err, p2) \<Rightarrow> (Inl err, p2)
             | (Inr resp, p2) \<Rightarrow>
                (case decodeRecord resp of
                   Inl err \<Rightarrow> (Inl err, p2)
                 | Inr result \<Rightarrow> (Inr (record\<lparr>ID := ID result\<rparr>), p2))))"

text \<open>\<^verbatim>\<open>func (p *Provider) updateDNSRecord(ctx, token, secret, zone, record) (dsDNSRecord, error)\<close>\<close>

definition updateDNSRecord :: "'w transport \<Rightarrow> 'w Provider \<Rightarrow> string \<Rightarrow> dsDNSRecord \<Rightarrow> (error + dsDNSRecord) \<times> 'w Provider" where
  "updateDNSRecord T p zone record =
     (case getDomainInfo T p zone of
        (Inl err, p1) \<Rightarrow> (Inl err, p1)
      | (Inr domain, p1) \<Rightarrow>
         (let reqData = (if TTL record = 0 then record\<lparr>TTL := defaultTtl_seconds\<rparr> else record)
          in case doRequest T p1 (POST_dns_record (zone_ID domain) (ID record) reqData) of
               (Inl err, p2) \<Rightarrow> (Inl err, p2)
             | (Inr resp, p2) \<Rightarrow>
                (case decodeRecord resp of
                   Inl err \<Rightarrow> (Inl err, p2)
                 | Inr result \<Rightarrow> getDNSRecord T p2 zone record)))"

text \<open>\<^verbatim>\<open>func (p *Provider) createOrUpdateDNSRecord(ctx, token, secret, zone, r) (dsDNSRecord, error)\<close>\<close>

definition createOrUpdateDNSRecord :: "'w transport \<Rightarrow> 'w Provider \<Rightarrow> string \<Rightarrow> dsDNSRecord \<Rightarrow> (error + dsDNSRecord) \<times> 'w Provider" where
  "createOrUpdateDNSRecord T p zone r =
     (if ID r = 0 then createDNSRecord T p zone r else updateDNSRecord T p zone r)"

text \<open>
  \<^verbatim>\<open>func (p *Provider) SetRecords(ctx, zone, records) ([]libdns.Record, error)\<close>: the
  first loop converts each record and creates or updates it, the second converts the
  results back. The first error ends the call. The log line is left out.
\<close>

fun SetRecords_apply ::
  "('o Record \<Rightarrow> RR) \<Rightarrow> 'w transport \<Rightarrow> 'w Provider \<Rightarrow> string \<Rightarrow> 'o Record list \<Rightarrow>
   (error + dsDNSRecord list) \<times> 'w Provider" where
  "SetRecords_apply toRR T p zone [] = (Inr [], p)"
| "SetRecords_apply toRR T p zone (record # records) =
     (case libdnsRecordTodsDNSRecord toRR record of
        Inl converr \<Rightarrow> (Inl converr, p)
      | Inr dsrr \<Rightarrow>
         (case createOrUpdateDNSRecord T p zone dsrr of
            (Inl err, p1) \<Rightarrow> (Inl err, p1)
          | (Inr newRecord, p1) \<Rightarrow>
             (case SetRecords_apply toRR T p1 zone records of
                (Inl err, p2) \<Rightarrow> (Inl err, p2)
              | (Inr appendedRecords, p2) \<Rightarrow> (Inr (newRecord # appendedRecords), p2))))"

fun SetRecords_convert :: "(RR \<Rightarrow> error + 'o Record) \<Rightarrow> dsDNSRecord list \<Rightarrow> error + 'o Record list" where
  "SetRecords_convert Parse [] = Inr []"
| "SetRecords_convert Parse (rec # appendedRecords) =
     (case libdnsRecord Parse rec of
        Inl err \<Rightarrow> Inl (ParsingRecord rec err)
      | Inr libdnsRec \<Rightarrow>
         (case SetRecords_convert Parse appendedRecords of
            Inl err \<Rightarrow> Inl err
          | Inr recs \<Rightarrow> Inr (libdnsRec # recs)))"

definition SetRecords ::
  "('o Record \<Rightarrow> RR) \<Rightarrow> (RR \<Rightarrow> error + 'o Record) \<Rightarrow> 'w transport \<Rightarrow> 'w Provider \<Rightarrow> string \<Rightarrow>
   'o Record list \<Rightarrow> (error + 'o Record list) \<times> 'w Provider" where
  "SetRecords toRR Parse T p zone records =
     (case SetRecords_apply toRR T p zone records of
        (Inl err, p1) \<Rightarrow> (Inl err, p1)
      | (Inr appendedRecords, p1) \<Rightarrow> (SetRecords_convert Parse appendedRecords, p1))"

section \<open>Derived notions used in the statements\<close>

text \<open>
  The round trip of the codec: a generic record is converted to the provider
  representation and back.
\<close>

definition codec_roundtrip ::
  "('o Record \<Rightarrow> RR) \<Rightarrow> (RR \<Rightarrow> error + 'o Record) \<Rightarrow> 'o Record \<Rightarrow> error + 'o Record" where
  "codec_roundtrip toRR Parse r =
     (case libdnsRecordTodsDNSRecord toRR r of
        Inl err \<Rightarrow> Inl err
      | Inr dsrr \<Rightarrow> libdnsRecord Parse dsrr)"


text \<open>
  The two match rules of the cache lookup as one predicate on a candidate and a stored
  entry: equal non-zero identifiers, or equal host and data with a non-zero stored
  identifier.
\<close>

definition matchesKnown :: "dsDNSRecord \<Rightarrow> dsDNSRecord \<Rightarrow> bool" where
  "matchesKnown record rec =
     ((ID record = ID rec \<and> ID record \<noteq> 0 \<and> ID rec \<noteq> 0)
      \<or> (Host record = Host rec \<and> Data record = Data rec \<and> ID rec \<noteq> 0))"

text \<open>
  \<open>later p q\<close>: the provider state \<open>q\<close> is reached from \<open>p\<close> by any number of
  the provider's operations, each with any transport and any arguments, and by any
  change of the remote side in between. The public operations are sequences of these
  operations.
\<close>

inductive later :: "'w Provider \<Rightarrow> 'w Provider \<Rightarrow> bool" where
  later_refl: "later p p"
| later_getDomainInfo: "later p q \<Longrightarrow> later p (snd (getDomainInfo T q zone))"
| later_getAllDomainRecords: "later p q \<Longrightarrow> later p (snd (getAllDomainRecords T q zone))"
| later_getDNSRecord: "later p q \<Longrightarrow> later p (snd (getDNSRecord T q zone record))"
| later_deleteDNSRecord: "later p q \<Longrightarrow> later p (snd (deleteDNSRecord T q zone record))"
| later_createDNSRecord: "later p q \<Longrightarrow> later p (snd (createDNSRecord T q zone record))"
| later_updateDNSRecord: "later p q \<Longrightarrow> later p (snd (updateDNSRecord T q zone record))"
| later_removeRecordFromKnownRecords:
    "later p q \<Longrightarrow> later p (snd (removeRecordFromKnownRecords record zone q))"
| later_remote: "later p q \<Longrightarrow> later p (q\<lparr>remote := w\<rparr>)"

text \<open>The requests that delete a record.\<close>

definition is_DELETE :: "request \<Rightarrow> bool" where
  "is_DELETE req = (case req of DELETE_dns zid rid \<Rightarrow> True | _ \<Rightarrow> False)"

section \<open>Example values\<close>

text \<open>
  The service record of the specification's scenario as the provider holds it, with the
  host left open; and a mail-exchange, a service and a text record of the generic model.
  Their time-to-live is one hour, or two minutes for the text record (in nanoseconds).
\<close>

definition sip_record :: "string \<Rightarrow> dsDNSRecord" where
  "sip_record host =
     \<lparr>ID = 0, Host = host, Data = ''sip.example.com'', Type = ''SRV'', TTL = 3600,
      Priority = ''10'', Weight = ''5'', Port = ''5060''\<rparr>"




text \<open>A text record of the provider with a given identifier, host and data.\<close>

definition www_record :: "int \<Rightarrow> string \<Rightarrow> string \<Rightarrow> dsDNSRecord" where
  "www_record i host dat =
     \<lparr>ID = i, Host = host, Data = dat, Type = ''TXT'', TTL = 120,
      Priority = [], Weight = [], Port = []\<rparr>"

text \<open>A provider whose record cache holds the given records for one zone.\<close>

definition cache_of :: "string \<Rightarrow> dsDNSRecord list \<Rightarrow> unit Provider" where
  "cache_of zone zoneRecords =
     \<lparr>zones = Map.empty, knownRecords = [zone \<mapsto> zoneRecords], remote = (), sent = []\<rparr>"

text \<open>
  An example of a remote side, used to evaluate the operations on concrete inputs: it
  holds the zones and the records of one account and the next free identifier. It
  answers a domain query with the zones of that name, lists and deletes records, stores
  a created record under a fresh identifier and echoes it, and stores an update and
  answers it with an empty JSON object.
\<close>

record remote_state =
  remote_zones :: "dsZone list"
  remote_records :: "dsDNSRecord list"
  next_id :: int

definition example_remote :: "remote_state transport" where
  "example_remote w req =
     (case req of
        GET_domains name \<Rightarrow>
          (Inr (Zones (filter (\<lambda>z. zone_Name z = name) (remote_zones w))), w)
      | GET_dns zid \<Rightarrow> (Inr (Records (remote_records w)), w)
      | DELETE_dns zid rid \<Rightarrow>
          (Inr NoContent, w\<lparr>remote_records := filter (\<lambda>r. ID r \<noteq> rid) (remote_records w)\<rparr>)
      | POST_dns zid body \<Rightarrow>
          (Inr (OneRecord (body\<lparr>ID := next_id w\<rparr>)),
           w\<lparr>remote_records := remote_records w @ [body\<lparr>ID := next_id w\<rparr>],
             next_id := next_id w + 1\<rparr>)
      | POST_dns_record zid rid body \<Rightarrow>
          (Inr (OneRecord dsDNSRecord_zero),
           w\<lparr>remote_records :=
               map (\<lambda>r. if ID r = rid then body\<lparr>ID := rid\<rparr> else r) (remote_records w)\<rparr>))"

definition example_zone :: dsZone where
  "example_zone =
     \<lparr>zone_Name = ''example.com'', zone_ID = 42, ExpiryDate = [], Nameservers = [],
      RegisteredDate = [], Registrant = [], Renew = False,
      Services = \<lparr>DNS = True, Email = False, Registrar = False, Webhotel = []\<rparr>,
      Status = []\<rparr>"

text \<open>
  A provider that has resolved no zone yet, with a given record cache, facing the
  example remote side with the given records.
\<close>

definition example_provider :: "dsDNSRecord list \<Rightarrow> (string \<rightharpoonup> dsDNSRecord list) \<Rightarrow> remote_state Provider" where
  "example_provider remoteRecords cache =
     \<lparr>zones = Map.empty, knownRecords = cache,
      remote = \<lparr>remote_zones = [example_zone], remote_records = remoteRecords, next_id = 100\<rparr>,
      sent = []\<rparr>"

text \<open>The generic text record \<open>test1\<close> with the data \<open>new_value\<close>.\<close>

definition new_value_record :: RR where
  "new_value_record =
     \<lparr>RR_Name = ''test1'', RR_TTL = 120000000000, RR_Type = ''TXT'', RR_Data = ''new_value''\<rparr>"

section \<open>Properties of name canonicalization\<close>

lemma HasSuffix_append: "HasSuffix (p @ z) z"
  by (simp add: HasSuffix_def)

lemma TrimSuffix_append: "TrimSuffix (p @ z) z = p"
  by (simp add: TrimSuffix_def HasSuffix_def)

lemma HasSuffix_dot: "HasSuffix s ''.'' \<longleftrightarrow> s \<noteq> [] \<and> last s = CHR ''.''"
proof (cases s rule: rev_cases)
  case Nil
  then show ?thesis by (simp add: HasSuffix_def)
next
  case (snoc ys y)
  then show ?thesis by (auto simp: HasSuffix_def)
qed

lemma removeFQDNTrailingDot_eq: "removeFQDNTrailingDot s = strip_trailing_dot s"
proof (cases s rule: rev_cases)
  case Nil
  then show ?thesis
    by (simp add: removeFQDNTrailingDot_def TrimSuffix_def HasSuffix_def strip_trailing_dot_def)
next
  case (snoc ys y)
  then show ?thesis
    by (simp add: removeFQDNTrailingDot_def TrimSuffix_def HasSuffix_dot strip_trailing_dot_def)
qed

lemma removeFQDNTrailingDot_id:
  "s = [] \<or> last s \<noteq> CHR ''.'' \<Longrightarrow> removeFQDNTrailingDot s = s"
  by (auto simp: removeFQDNTrailingDot_eq strip_trailing_dot_def)

lemma normalizeRecordName_eq_spec: "normalizeRecordName name zone = normalize_spec name zone"
  by (simp add: normalizeRecordName_def normalize_spec_def removeFQDNTrailingDot_eq
      TrimSuffix_def HasSuffix_def Let_def)

text \<open>
  C5. Name canonicalization gives \<open>123.test\<close> for the absolute name without trailing dot
  against the zone with trailing dot, for the absolute name with trailing dot against the
  zone without, and for the relative name; and \<open>normalizeRecordName\<close> is the rule of
  the specification: strip the trailing dot of name and zone, strip the zone as a suffix
  of the name if present, put \<open>@\<close> for an empty remainder, strip a resulting trailing dot.
\<close>

theorem normalizeRecordName_invariant_across_forms:
  "normalizeRecordName ''123.test.example.com'' ''example.com.'' = ''123.test''
   \<and> normalizeRecordName ''123.test.example.com.'' ''example.com'' = ''123.test''
   \<and> normalizeRecordName ''123.test'' ''example.com'' = ''123.test''
   \<and> (\<forall>name zone. normalizeRecordName name zone = normalize_spec name zone)"
proof -
  have a: "normalizeRecordName ''123.test.example.com'' ''example.com.'' = ''123.test''"
    by (simp add: normalizeRecordName_def removeFQDNTrailingDot_def TrimSuffix_def
        HasSuffix_def)
  have b: "normalizeRecordName ''123.test.example.com.'' ''example.com'' = ''123.test''"
    by (simp add: normalizeRecordName_def removeFQDNTrailingDot_def TrimSuffix_def
        HasSuffix_def)
  have c: "normalizeRecordName ''123.test'' ''example.com'' = ''123.test''"
    by (simp add: normalizeRecordName_def removeFQDNTrailingDot_def TrimSuffix_def
        HasSuffix_def)
  from a b c normalizeRecordName_eq_spec show ?thesis by blast
qed

text \<open>
  C9. Zone-suffix stripping is textual, with no label-boundary check: a name made of a
  non-empty text \<open>p\<close> that does not end with a dot, directly followed by the zone
  (trailing dot removed) with no separating dot, is normalized to \<open>p\<close>; so
  \<open>notexample.com\<close> in zone \<open>example.com\<close> becomes \<open>not\<close>.
\<close>

theorem normalizeRecordName_no_label_boundary:
  assumes "p \<noteq> []" and "last p \<noteq> CHR ''.''"
    and "last (p @ removeFQDNTrailingDot zone) \<noteq> CHR ''.''"
  shows "normalizeRecordName (p @ removeFQDNTrailingDot zone) zone = p"
proof -
  have "removeFQDNTrailingDot (p @ removeFQDNTrailingDot zone) = p @ removeFQDNTrailingDot zone"
    using assms(3) by (intro removeFQDNTrailingDot_id) simp
  moreover have "removeFQDNTrailingDot p = p"
    using assms(2) by (intro removeFQDNTrailingDot_id) simp
  ultimately show ?thesis
    using assms(1) by (simp add: normalizeRecordName_def TrimSuffix_append)
qed

theorem normalizeRecordName_no_label_boundary_witness:
  "''not'' \<noteq> [] \<and> last ''not'' \<noteq> CHR ''.''
   \<and> last (''not'' @ removeFQDNTrailingDot ''example.com'') \<noteq> CHR ''.''
   \<and> removeFQDNTrailingDot ''example.com'' = ''example.com''
   \<and> normalizeRecordName ''notexample.com'' ''example.com'' = ''not''"
proof -
  have z: "removeFQDNTrailingDot ''example.com'' = ''example.com''"
    by (simp add: removeFQDNTrailingDot_def TrimSuffix_def HasSuffix_def)
  have h1: "''not'' \<noteq> []" by simp
  have h2: "last ''not'' \<noteq> CHR ''.''" by simp
  have h3: "last (''not'' @ removeFQDNTrailingDot ''example.com'') \<noteq> CHR ''.''"
    by (simp add: z)
  from normalizeRecordName_no_label_boundary [OF h1 h2 h3]
  have "normalizeRecordName ''notexample.com'' ''example.com'' = ''not''"
    by (simp add: z)
  with h1 h2 h3 z show ?thesis by blast
qed

section \<open>Decimal numbers and durations\<close>

lemma ParseUint_loop_append:
  "ParseUint_loop M a (xs @ ys) =
     (case ParseUint_loop M a xs of Inl e \<Rightarrow> Inl e | Inr b \<Rightarrow> ParseUint_loop M b ys)"
  by (induction xs arbitrary: a) (auto simp: Let_def)

lemma digit_cases: "d < 10 \<Longrightarrow> d \<in> {0, 1, 2, 3, 4, 5, 6, 7, 8, 9 :: nat}"
  by auto

lemma digitVal_digitChar: "d < 10 \<Longrightarrow> digitVal (digitChar d) = d"
  using digit_cases [of d] by (auto simp: digitVal_def digitChar_def)

lemma isDigit_digitChar: "d < 10 \<Longrightarrow> isDigit (digitChar d)"
  using digit_cases [of d] by (auto simp: isDigit_def digitChar_def)

lemma formatDec_nonempty: "formatDec n \<noteq> []"
  by (subst formatDec.simps) simp

lemma ParseUint_loop_formatDec:
  "M < 1844674407370955162 \<Longrightarrow> a * 10 ^ length (formatDec n) + n \<le> M \<Longrightarrow>
   ParseUint_loop M a (formatDec n) = Inr (a * 10 ^ length (formatDec n) + n)"
proof (induction n arbitrary: a rule: formatDec.induct)
  case (1 n)
  show ?case
  proof (cases "n < 10")
    case True
    then have f: "formatDec n = [digitChar n]"
      by (subst formatDec.simps) simp
    from 1(2,3) have "a * 10 + n \<le> M" "a < 1844674407370955162"
      by (auto simp: f)
    with True show ?thesis
      by (simp add: f digitVal_digitChar isDigit_digitChar)
  next
    case False
    let ?L = "length (formatDec (n div 10))"
    from False have f: "formatDec n = formatDec (n div 10) @ [digitChar (n mod 10)]"
      by (subst formatDec.simps) simp
    from 1(3) have bound: "a * 10 ^ ?L * 10 + n \<le> M"
      by (simp add: f mult.assoc)
    then have b1: "a * 10 ^ ?L + n div 10 \<le> M"
      by linarith
    have ih: "ParseUint_loop M a (formatDec (n div 10)) = Inr (a * 10 ^ ?L + n div 10)"
      using "1.IH" [OF False 1(2) b1] .
    have eq: "(a * 10 ^ ?L + n div 10) * 10 + n mod 10 = a * 10 ^ ?L * 10 + n"
      by (simp add: algebra_simps)
    have lt: "a * 10 ^ ?L + n div 10 < 1844674407370955162"
      using b1 1(2) by linarith
    show ?thesis
      using bound lt
      by (simp add: f ParseUint_loop_append ih digitVal_digitChar isDigit_digitChar eq
          mult.assoc)
  qed
qed

lemma ParseUint_Itoa_uint16: "ParseUint (Itoa (uint (w :: 16 word))) 16 = Inr (unat w)"
proof -
  have "unat w < 2 ^ 16"
    using unsigned_less [of w, where ?'a = nat] by simp
  then have le: "unat w \<le> 65535" by simp
  have "Itoa (uint w) = formatDec (unat w)"
    by (simp add: Itoa_def)
  moreover have "ParseUint_loop 65535 0 (formatDec (unat w)) = Inr (unat w)"
    using ParseUint_loop_formatDec [of 65535 0 "unat w"] le by simp
  ultimately show ?thesis
    by (simp add: ParseUint_def formatDec_nonempty)
qed


section \<open>Properties of the record codec\<close>



lemma srv_roundtrip_value:
  assumes "RR_Type (toRR (SRV_Record s)) = ''SRV''"
  shows "codec_roundtrip toRR Parse (SRV_Record s) =
     (let host = RR_Name (toRR (SRV_Record s)); parts = SplitN2 host CHR ''.'' in
      if length parts < 2 then Inl (NotEnoughFields host)
      else Inr (SRV_Record
        \<lparr>SRV_Service = TrimPrefix (parts ! 0) ''_'',
         SRV_Transport = TrimPrefix (parts ! 1) ''_'',
         SRV_Name = host,
         SRV_TTL = word_of_int (Seconds_int (RR_TTL (toRR (SRV_Record s)))) * Second,
         SRV_Priority = SRV_Priority s,
         SRV_Weight = SRV_Weight s,
         SRV_Port = SRV_Port s,
         SRV_Target = SRV_Target s\<rparr>))"
  using assms
  by (simp add: codec_roundtrip_def libdnsRecordTodsDNSRecord_def libdnsRecord_def Let_def
      dsDNSRecord_zero_def ParseUint_Itoa_uint16)


text \<open>
  Whatever the library's flattening is, as long as it gives a service record the type
  \<open>SRV\<close>: a service record that survives the round trip has a name with a dot, and
  its service and transport are the parts of that name.
\<close>

lemma srv_roundtrip_only_if:
  assumes "RR_Type (toRR (SRV_Record s)) = ''SRV''"
    and "codec_roundtrip toRR Parse (SRV_Record s) = Inr (SRV_Record s)"
  shows "SRV_Service s = TrimPrefix (SplitN2 (SRV_Name s) CHR ''.'' ! 0) ''_''
       \<and> SRV_Transport s = TrimPrefix (SplitN2 (SRV_Name s) CHR ''.'' ! 1) ''_''
       \<and> CHR ''.'' \<in> set (SRV_Name s)"
proof -
  let ?host = "RR_Name (toRR (SRV_Record s))"
  let ?parts = "SplitN2 ?host CHR ''.''"
  from assms(2) have len: "\<not> length ?parts < 2"
    unfolding srv_roundtrip_value [of toRR s Parse, OF assms(1)] Let_def by (auto split: if_splits)
  with assms(2) have eq: "s =
        \<lparr>SRV_Service = TrimPrefix (?parts ! 0) ''_'',
         SRV_Transport = TrimPrefix (?parts ! 1) ''_'',
         SRV_Name = ?host,
         SRV_TTL = word_of_int (Seconds_int (RR_TTL (toRR (SRV_Record s)))) * Second,
         SRV_Priority = SRV_Priority s,
         SRV_Weight = SRV_Weight s,
         SRV_Port = SRV_Port s,
         SRV_Target = SRV_Target s\<rparr>"
    unfolding srv_roundtrip_value [of toRR s Parse, OF assms(1)] Let_def by simp
  have name: "SRV_Name s = ?host"
    by (subst eq) simp
  have s1: "SRV_Service s = TrimPrefix (?parts ! 0) ''_''"
    by (subst eq) simp
  have s2: "SRV_Transport s = TrimPrefix (?parts ! 1) ''_''"
    by (subst eq) simp
  from len have "CHR ''.'' \<in> set ?host"
    by (auto simp: SplitN2_def split: if_splits)
  with s1 s2 name show ?thesis by simp
qed


lemma SplitN2_first_dot:
  assumes "sep \<notin> set a"
  shows "SplitN2 (a @ sep # b) sep = [a, b]"
proof -
  have P: "\<And>x. x \<in> set a \<Longrightarrow> x \<noteq> sep"
    using assms by auto
  have "takeWhile (\<lambda>c. c \<noteq> sep) (a @ sep # b) = a @ takeWhile (\<lambda>c. c \<noteq> sep) (sep # b)"
    using P by (rule takeWhile_append2)
  moreover have "dropWhile (\<lambda>c. c \<noteq> sep) (a @ sep # b) = dropWhile (\<lambda>c. c \<noteq> sep) (sep # b)"
    using P by (rule dropWhile_append2)
  ultimately show ?thesis by (simp add: SplitN2_def)
qed

lemma SplitN2_no_sep: "sep \<notin> set s \<Longrightarrow> SplitN2 s sep = [s]"
  by (simp add: SplitN2_def)

lemma TrimPrefix_underscore: "TrimPrefix (CHR ''_'' # x) ''_'' = x"
  by (simp add: TrimPrefix_def HasPrefix_def)

text \<open>
  C4 (amended). For a provider record of type \<open>SRV\<close> whose priority, weight and port
  parse as 16-bit numbers: a host without a dot is the error "not enough fields";
  otherwise the host is split at its first dot, the service is the text before it and
  the transport is everything after it (not only the next label), each without one
  leading underscore, and the numbers are the parsed values.
\<close>

theorem libdnsRecord_SRV_labels:
  assumes "Type r = ''SRV''"
    and "ParseUint (Priority r) 16 = Inr priority"
    and "ParseUint (Weight r) 16 = Inr weight"
    and "ParseUint (Port r) 16 = Inr port"
  shows "(CHR ''.'' \<notin> set (Host r) \<longrightarrow>
            libdnsRecord Parse r = Inl (NotEnoughFields (Host r)))
       \<and> (\<forall>a b. Host r = a @ ''.'' @ b \<and> CHR ''.'' \<notin> set a \<longrightarrow>
            libdnsRecord Parse r =
              Inr (SRV_Record
                \<lparr>SRV_Service = TrimPrefix a ''_'',
                 SRV_Transport = TrimPrefix b ''_'',
                 SRV_Name = Host r,
                 SRV_TTL = word_of_int (TTL r) * Second,
                 SRV_Priority = of_nat priority,
                 SRV_Weight = of_nat weight,
                 SRV_Port = of_nat port,
                 SRV_Target = Data r\<rparr>))"
proof (intro conjI impI allI)
  assume "CHR ''.'' \<notin> set (Host r)"
  then show "libdnsRecord Parse r = Inl (NotEnoughFields (Host r))"
    using assms by (simp add: libdnsRecord_def SplitN2_no_sep)
next
  fix a b
  assume "Host r = a @ ''.'' @ b \<and> CHR ''.'' \<notin> set a"
  then have "SplitN2 (Host r) CHR ''.'' = [a, b]"
    using SplitN2_first_dot [of "CHR ''.''" a b] by simp
  then show "libdnsRecord Parse r =
              Inr (SRV_Record
                \<lparr>SRV_Service = TrimPrefix a ''_'',
                 SRV_Transport = TrimPrefix b ''_'',
                 SRV_Name = Host r,
                 SRV_TTL = word_of_int (TTL r) * Second,
                 SRV_Priority = of_nat priority,
                 SRV_Weight = of_nat weight,
                 SRV_Port = of_nat port,
                 SRV_Target = Data r\<rparr>)"
    using assms by (simp add: libdnsRecord_def)
qed

lemma ParseUint_examples:
  "ParseUint ''10'' 16 = Inr 10" "ParseUint ''5'' 16 = Inr 5" "ParseUint ''5060'' 16 = Inr 5060"
  by (simp_all add: ParseUint_def isDigit_def digitVal_def)

text \<open>
  The host \<open>_sip._tcp\<close> with priority 10, weight 5 and port 5060 gives service \<open>sip\<close>
  and transport \<open>tcp\<close>; the host \<open>sip\<close> is refused.
\<close>

theorem libdnsRecord_SRV_labels_witness:
  "Type (sip_record ''_sip._tcp'') = ''SRV''
   \<and> ParseUint (Priority (sip_record ''_sip._tcp'')) 16 = Inr 10
   \<and> ParseUint (Weight (sip_record ''_sip._tcp'')) 16 = Inr 5
   \<and> ParseUint (Port (sip_record ''_sip._tcp'')) 16 = Inr 5060
   \<and> libdnsRecord generic_Parse (sip_record ''_sip._tcp'') =
       Inr (SRV_Record
         \<lparr>SRV_Service = ''sip'', SRV_Transport = ''tcp'', SRV_Name = ''_sip._tcp'',
          SRV_TTL = 3600000000000, SRV_Priority = 10, SRV_Weight = 5, SRV_Port = 5060,
          SRV_Target = ''sip.example.com''\<rparr>)
   \<and> libdnsRecord generic_Parse (sip_record ''sip'') = Inl (NotEnoughFields ''sip'')"
proof -
  have h: "Type (sip_record ''_sip._tcp'') = ''SRV''"
    "ParseUint (Priority (sip_record ''_sip._tcp'')) 16 = Inr 10"
    "ParseUint (Weight (sip_record ''_sip._tcp'')) 16 = Inr 5"
    "ParseUint (Port (sip_record ''_sip._tcp'')) 16 = Inr 5060"
    by (simp_all add: sip_record_def ParseUint_examples)
  have g: "Type (sip_record ''sip'') = ''SRV''"
    "ParseUint (Priority (sip_record ''sip'')) 16 = Inr 10"
    "ParseUint (Weight (sip_record ''sip'')) 16 = Inr 5"
    "ParseUint (Port (sip_record ''sip'')) 16 = Inr 5060"
    by (simp_all add: sip_record_def ParseUint_examples)
  have host: "Host (sip_record ''_sip._tcp'') = ''_sip'' @ ''.'' @ ''_tcp'' \<and> CHR ''.'' \<notin> set ''_sip''"
    by (simp add: sip_record_def)
  have "libdnsRecord generic_Parse (sip_record ''_sip._tcp'') =
       Inr (SRV_Record
         \<lparr>SRV_Service = ''sip'', SRV_Transport = ''tcp'', SRV_Name = ''_sip._tcp'',
          SRV_TTL = 3600000000000, SRV_Priority = 10, SRV_Weight = 5, SRV_Port = 5060,
          SRV_Target = ''sip.example.com''\<rparr>)"
    using libdnsRecord_SRV_labels [OF h, of generic_Parse, THEN conjunct2, rule_format,
        of "''_sip''" "''_tcp''"] host
    by (simp add: sip_record_def TrimPrefix_underscore Second_def)
  moreover have "libdnsRecord generic_Parse (sip_record ''sip'') = Inl (NotEnoughFields ''sip'')"
    using libdnsRecord_SRV_labels [OF g, of generic_Parse]
    by (simp add: sip_record_def)
  ultimately show ?thesis using h by blast
qed

text \<open>
  C4 as stated fails: for the host \<open>_sip._tcp.example.com\<close> the transport is
  \<open>tcp.example.com\<close>, not \<open>tcp\<close>.
\<close>

theorem libdnsRecord_SRV_transport_counterexample:
  "libdnsRecord generic_Parse (sip_record ''_sip._tcp.example.com'') =
     Inr (SRV_Record
       \<lparr>SRV_Service = ''sip'', SRV_Transport = ''tcp.example.com'',
        SRV_Name = ''_sip._tcp.example.com'', SRV_TTL = 3600000000000,
        SRV_Priority = 10, SRV_Weight = 5, SRV_Port = 5060,
        SRV_Target = ''sip.example.com''\<rparr>)
   \<and> ''tcp.example.com'' \<noteq> ''tcp''"
  by (simp add: sip_record_def libdnsRecord_def ParseUint_examples SplitN2_def
      TrimPrefix_def HasPrefix_def Second_def)

text \<open>
  When a record is created, its host is first normalized against the zone, which turns
  the host of the scenario into \<open>_sip._tcp\<close>.
\<close>

lemma srv_scenario_after_normalization:
  "normalizeRecordName ''_sip._tcp.example.com'' ''example.com'' = ''_sip._tcp''"
  by (simp add: normalizeRecordName_def removeFQDNTrailingDot_def TrimSuffix_def
      HasSuffix_def)

lemma sint_examples:
  "sint (3600000000000 :: Duration) mod 1000000000 = 0"
  "sint (120000000000 :: Duration) mod 1000000000 = 0"
  by simp_all



section \<open>Properties of the record cache\<close>

text \<open>The lookup returns the first entry, in the order of the slice, that matches by
  either rule.\<close>

lemma findKnownRecord_find:
  "findKnownRecord record zoneRecords =
     (case find (matchesKnown record) zoneRecords of Some rec \<Rightarrow> rec | None \<Rightarrow> dsDNSRecord_zero)"
  by (induction zoneRecords) (auto simp: matchesKnown_def)

lemma findKnownRecord_live:
  "findKnownRecord record zoneRecords = dsDNSRecord_zero
   \<or> (findKnownRecord record zoneRecords \<in> set zoneRecords
      \<and> ID (findKnownRecord record zoneRecords) \<noteq> 0)"
  by (induction zoneRecords) auto

lemma findKnownRecord_skip_zero:
  "ID e = 0 \<Longrightarrow> findKnownRecord record (xs @ e # ys) = findKnownRecord record (xs @ ys)"
  by (induction xs) auto

lemma zeroKnownRecord_found:
  "zeroKnownRecord record xs = (True, xs') \<Longrightarrow>
   \<exists>i. i < length xs \<and> ID (xs ! i) = ID record \<and> ID record \<noteq> 0
       \<and> (\<forall>j<i. ID (xs ! j) \<noteq> ID record)
       \<and> xs' = xs[i := (xs ! i)\<lparr>ID := 0\<rparr>]"
proof (induction xs arbitrary: xs')
  case Nil
  then show ?case by simp
next
  case (Cons x xs)
  show ?case
  proof (cases "ID record = ID x \<and> ID record \<noteq> 0")
    case True
    with Cons.prems have "xs' = x\<lparr>ID := 0\<rparr> # xs" by simp
    with True have "0 < length (x # xs) \<and> ID ((x # xs) ! 0) = ID record \<and> ID record \<noteq> 0
       \<and> (\<forall>j<0. ID ((x # xs) ! j) \<noteq> ID record)
       \<and> xs' = (x # xs)[0 := ((x # xs) ! 0)\<lparr>ID := 0\<rparr>]"
      by simp
    then show ?thesis by blast
  next
    case False
    with Cons.prems obtain ys where ys: "zeroKnownRecord record xs = (True, ys)" "xs' = x # ys"
      by (auto split: prod.splits)
    from Cons.IH [OF ys(1)] obtain i where i: "i < length xs" "ID (xs ! i) = ID record"
      "ID record \<noteq> 0" "\<forall>j<i. ID (xs ! j) \<noteq> ID record" "ys = xs[i := (xs ! i)\<lparr>ID := 0\<rparr>]"
      by blast
    have "\<forall>j<Suc i. ID ((x # xs) ! j) \<noteq> ID record"
    proof (intro allI impI)
      fix j assume "j < Suc i"
      then show "ID ((x # xs) ! j) \<noteq> ID record"
        using False i(3,4) by (cases j) auto
    qed
    with i ys(2) have "Suc i < length (x # xs) \<and> ID ((x # xs) ! Suc i) = ID record \<and> ID record \<noteq> 0
       \<and> (\<forall>j<Suc i. ID ((x # xs) ! j) \<noteq> ID record)
       \<and> xs' = (x # xs)[Suc i := ((x # xs) ! Suc i)\<lparr>ID := 0\<rparr>]"
      by simp
    then show ?thesis by blast
  qed
qed

lemma zeroKnownRecord_not_found:
  "zeroKnownRecord record xs = (False, xs') \<Longrightarrow> xs' = xs"
  by (induction xs arbitrary: xs') (auto split: if_splits prod.splits)

lemma findKnownRecord_tombstone:
  assumes "i < length xs"
  shows "findKnownRecord c (xs[i := (xs ! i)\<lparr>ID := 0\<rparr>]) =
         findKnownRecord c (take i xs @ drop (Suc i) xs)"
proof -
  have "xs[i := (xs ! i)\<lparr>ID := 0\<rparr>] = take i xs @ (xs ! i)\<lparr>ID := 0\<rparr> # drop (Suc i) xs"
    using assms by (rule upd_conv_take_nth_drop)
  then show ?thesis
    by (simp add: findKnownRecord_skip_zero)
qed

text \<open>
  C8. A successful invalidation sets to zero the identifier of one entry, at an index
  \<open>i\<close> where the candidate's non-zero identifier was stored, and changes nothing else:
  the slice keeps its length and its other entries, and the rest of the provider is as
  before. Afterwards the lookup of any candidate is the lookup in the slice without the
  entry at \<open>i\<close>, so that entry is never returned; what a lookup returns is the zero
  record (nothing found) or an entry with a non-zero identifier.
\<close>

theorem removeRecordFromKnownRecords_tombstone:
  assumes "removeRecordFromKnownRecords record zone p = (True, p')"
  shows "\<exists>zoneRecords i.
           knownRecords p zone = Some zoneRecords
         \<and> i < length zoneRecords \<and> ID (zoneRecords ! i) = ID record \<and> ID record \<noteq> 0
         \<and> p' = p\<lparr>knownRecords :=
                    (knownRecords p)(zone \<mapsto> zoneRecords[i := (zoneRecords ! i)\<lparr>ID := 0\<rparr>])\<rparr>
         \<and> length (the (knownRecords p' zone)) = length zoneRecords
         \<and> (\<forall>c. getRecordFromKnownRecords c zone p' =
                  findKnownRecord c (take i zoneRecords @ drop (Suc i) zoneRecords))
         \<and> (\<forall>c. getRecordFromKnownRecords c zone p' = dsDNSRecord_zero
                \<or> ID (getRecordFromKnownRecords c zone p') \<noteq> 0)"
proof -
  from assms obtain zoneRecords zoneRecords' where
    k: "knownRecords p zone = Some zoneRecords"
    and z: "zeroKnownRecord record zoneRecords = (True, zoneRecords')"
    and p': "p' = p\<lparr>knownRecords := (knownRecords p)(zone \<mapsto> zoneRecords')\<rparr>"
    by (auto simp: removeRecordFromKnownRecords_def split: option.splits prod.splits)
  from zeroKnownRecord_found [OF z] obtain i where
    i: "i < length zoneRecords" "ID (zoneRecords ! i) = ID record" "ID record \<noteq> 0"
       "zoneRecords' = zoneRecords[i := (zoneRecords ! i)\<lparr>ID := 0\<rparr>]"
    by blast
  have look: "getRecordFromKnownRecords c zone p' =
       findKnownRecord c (take i zoneRecords @ drop (Suc i) zoneRecords)" for c
    by (simp add: getRecordFromKnownRecords_def p' i(4) findKnownRecord_tombstone [OF i(1)])
  have live: "getRecordFromKnownRecords c zone p' = dsDNSRecord_zero
                \<or> ID (getRecordFromKnownRecords c zone p') \<noteq> 0" for c
    unfolding look using findKnownRecord_live by blast
  have len: "length (the (knownRecords p' zone)) = length zoneRecords"
    by (simp add: p' i(4))
  from k i p' look live len show ?thesis by blast
qed

text \<open>Invalidating identifier 7 in a cache of three records.\<close>

theorem removeRecordFromKnownRecords_tombstone_witness:
  "removeRecordFromKnownRecords (www_record 7 ''x'' ''y'') ''example.com''
     (cache_of ''example.com'' [www_record 5 ''a'' ''1'', www_record 7 ''b'' ''2'', www_record 9 ''c'' ''3''])
   = (True, cache_of ''example.com''
        [www_record 5 ''a'' ''1'', www_record 0 ''b'' ''2'', www_record 9 ''c'' ''3''])
   \<and> (\<forall>c. getRecordFromKnownRecords c ''example.com''
            (cache_of ''example.com''
               [www_record 5 ''a'' ''1'', www_record 0 ''b'' ''2'', www_record 9 ''c'' ''3''])
          = dsDNSRecord_zero
        \<or> ID (getRecordFromKnownRecords c ''example.com''
            (cache_of ''example.com''
               [www_record 5 ''a'' ''1'', www_record 0 ''b'' ''2'', www_record 9 ''c'' ''3''])) \<noteq> 0)"
proof -
  have h: "removeRecordFromKnownRecords (www_record 7 ''x'' ''y'') ''example.com''
     (cache_of ''example.com'' [www_record 5 ''a'' ''1'', www_record 7 ''b'' ''2'', www_record 9 ''c'' ''3''])
   = (True, cache_of ''example.com''
        [www_record 5 ''a'' ''1'', www_record 0 ''b'' ''2'', www_record 9 ''c'' ''3''])"
    by (simp add: removeRecordFromKnownRecords_def cache_of_def www_record_def)
  from removeRecordFromKnownRecords_tombstone [OF h] h show ?thesis
    by blast
qed

text \<open>
  C2 (amended). Take a candidate \<open>c\<close> with a non-zero identifier, an entry \<open>b\<close> that
  shares only the identifier with it and an entry \<open>a\<close> that shares only host and data.
  When the cache of the zone is \<open>[b, a]\<close> the lookup returns \<open>b\<close>. When it is
  \<open>[a, b]\<close> the lookup returns \<open>a\<close>, the entry that comes first, unless the identifier
  of \<open>a\<close> is zero, in which case it returns \<open>b\<close>.
\<close>

theorem getRecordFromKnownRecords_first_match:
  assumes "ID c \<noteq> 0"
    and "ID b = ID c" and "\<not> (Host b = Host c \<and> Data b = Data c)"
    and "Host a = Host c" and "Data a = Data c" and "ID a \<noteq> ID c"
  shows "(knownRecords p zone = Some [b, a] \<longrightarrow> getRecordFromKnownRecords c zone p = b)
       \<and> (knownRecords p zone = Some [a, b] \<longrightarrow>
            getRecordFromKnownRecords c zone p = (if ID a = 0 then b else a))"
  using assms by (auto simp: getRecordFromKnownRecords_def)

text \<open>The two orders, for a candidate with identifier 7.\<close>

theorem getRecordFromKnownRecords_first_match_witness:
  "ID (www_record 7 ''www'' ''new'') \<noteq> 0
   \<and> ID (www_record 7 ''old'' ''old'') = ID (www_record 7 ''www'' ''new'')
   \<and> \<not> (Host (www_record 7 ''old'' ''old'') = Host (www_record 7 ''www'' ''new'')
        \<and> Data (www_record 7 ''old'' ''old'') = Data (www_record 7 ''www'' ''new''))
   \<and> Host (www_record 5 ''www'' ''new'') = Host (www_record 7 ''www'' ''new'')
   \<and> Data (www_record 5 ''www'' ''new'') = Data (www_record 7 ''www'' ''new'')
   \<and> ID (www_record 5 ''www'' ''new'') \<noteq> ID (www_record 7 ''www'' ''new'')
   \<and> getRecordFromKnownRecords (www_record 7 ''www'' ''new'') ''example.com''
        (cache_of ''example.com'' [www_record 7 ''old'' ''old'', www_record 5 ''www'' ''new''])
      = www_record 7 ''old'' ''old''
   \<and> getRecordFromKnownRecords (www_record 7 ''www'' ''new'') ''example.com''
        (cache_of ''example.com'' [www_record 5 ''www'' ''new'', www_record 7 ''old'' ''old''])
      = www_record 5 ''www'' ''new''"
proof -
  have h: "ID (www_record 7 ''www'' ''new'') \<noteq> 0"
    "ID (www_record 7 ''old'' ''old'') = ID (www_record 7 ''www'' ''new'')"
    "\<not> (Host (www_record 7 ''old'' ''old'') = Host (www_record 7 ''www'' ''new'')
        \<and> Data (www_record 7 ''old'' ''old'') = Data (www_record 7 ''www'' ''new''))"
    "Host (www_record 5 ''www'' ''new'') = Host (www_record 7 ''www'' ''new'')"
    "Data (www_record 5 ''www'' ''new'') = Data (www_record 7 ''www'' ''new'')"
    "ID (www_record 5 ''www'' ''new'') \<noteq> ID (www_record 7 ''www'' ''new'')"
    by (simp_all add: www_record_def)
  have k1: "knownRecords (cache_of ''example.com'' [www_record 7 ''old'' ''old'', www_record 5 ''www'' ''new''])
              ''example.com'' = Some [www_record 7 ''old'' ''old'', www_record 5 ''www'' ''new'']"
    by (simp add: cache_of_def)
  have k2: "knownRecords (cache_of ''example.com'' [www_record 5 ''www'' ''new'', www_record 7 ''old'' ''old''])
              ''example.com'' = Some [www_record 5 ''www'' ''new'', www_record 7 ''old'' ''old'']"
    by (simp add: cache_of_def)
  have five: "ID (www_record 5 ''www'' ''new'') \<noteq> 0"
    by (simp add: www_record_def)
  from getRecordFromKnownRecords_first_match [OF h, THEN conjunct1, rule_format, OF k1]
       getRecordFromKnownRecords_first_match [OF h, THEN conjunct2, rule_format, OF k2]
       five h
  show ?thesis by simp
qed

text \<open>
  C2 as stated fails: with the entry that shares host and data first, the lookup returns
  it and not the entry with the candidate's identifier.
\<close>

theorem getRecordFromKnownRecords_identifier_priority_counterexample:
  "getRecordFromKnownRecords (www_record 7 ''www'' ''new'') ''example.com''
     (cache_of ''example.com'' [www_record 5 ''www'' ''new'', www_record 7 ''old'' ''old''])
   = www_record 5 ''www'' ''new''
   \<and> www_record 5 ''www'' ''new'' \<noteq> www_record 7 ''old'' ''old''"
  by (simp add: getRecordFromKnownRecords_def cache_of_def www_record_def)

section \<open>Properties of the zone resolver\<close>

text \<open>No operation removes or replaces an entry of the zone cache.\<close>

lemma doRequest_zones [simp]: "zones (snd (doRequest T p req)) = zones p"
  by (simp add: doRequest_def split: prod.splits)

lemma doRequest_knownRecords [simp]: "knownRecords (snd (doRequest T p req)) = knownRecords p"
  by (simp add: doRequest_def split: prod.splits)

lemma doRequest_sent [simp]: "sent (snd (doRequest T p req)) = sent p @ [req]"
  by (simp add: doRequest_def split: prod.splits)

lemma getDomainInfo_hit: "zones p zone = Some z \<Longrightarrow> getDomainInfo T p zone = (Inr z, p)"
  by (simp add: getDomainInfo_def)

lemma getDomainInfo_Inr_cached:
  assumes "getDomainInfo T p zone = (Inr z, p1)"
  shows "zones p1 zone = Some z"
proof (cases "zones p zone")
  case None
  obtain res q where d: "doRequest T p (GET_domains (removeFQDNTrailingDot zone)) = (res, q)"
    by (cases "doRequest T p (GET_domains (removeFQDNTrailingDot zone))")
  from assms None d show ?thesis
    by (auto simp: getDomainInfo_def split: sum.splits if_splits)
next
  case (Some a)
  with assms show ?thesis by (simp add: getDomainInfo_def)
qed

lemma getDomainInfo_keeps:
  assumes "zones p k = Some z"
  shows "zones (snd (getDomainInfo T p zone)) k = Some z"
proof (cases "zones p zone")
  case None
  then have ne: "k \<noteq> zone" using assms by auto
  obtain res q where d: "doRequest T p (GET_domains (removeFQDNTrailingDot zone)) = (res, q)"
    by (cases "doRequest T p (GET_domains (removeFQDNTrailingDot zone))")
  then have q: "zones q = zones p"
    using doRequest_zones [of T p "GET_domains (removeFQDNTrailingDot zone)"] by simp
  from None d q ne assms show ?thesis
    by (auto simp: getDomainInfo_def split: sum.splits)
next
  case (Some a)
  with assms show ?thesis by (simp add: getDomainInfo_def)
qed

lemma getAllDomainRecords_keeps:
  assumes "zones p k = Some z"
  shows "zones (snd (getAllDomainRecords T p zone)) k = Some z"
proof -
  obtain r1 p1 where g: "getDomainInfo T p zone = (r1, p1)"
    by (cases "getDomainInfo T p zone")
  have z1: "zones p1 k = Some z"
    using getDomainInfo_keeps [OF assms, of T zone] g by simp
  show ?thesis
  proof (cases r1)
    case (Inl e)
    with g z1 show ?thesis by (simp add: getAllDomainRecords_def)
  next
    case (Inr domain)
    obtain r2 p2 where d: "doRequest T p1 (GET_dns (zone_ID domain)) = (r2, p2)"
      by (cases "doRequest T p1 (GET_dns (zone_ID domain))")
    then have "zones p2 = zones p1"
      using doRequest_zones [of T p1 "GET_dns (zone_ID domain)"] by simp
    with g Inr d z1 show ?thesis
      by (auto simp: getAllDomainRecords_def split: sum.splits)
  qed
qed

lemma removeRecordFromKnownRecords_zones [simp]:
  "zones (snd (removeRecordFromKnownRecords record zone p)) = zones p"
  by (simp add: removeRecordFromKnownRecords_def split: option.splits prod.splits)

lemma getDNSRecord_keeps:
  assumes "zones p k = Some z"
  shows "zones (snd (getDNSRecord T p zone record)) k = Some z"
proof -
  obtain r1 p1 where g: "getAllDomainRecords T p zone = (r1, p1)"
    by (cases "getAllDomainRecords T p zone")
  have "zones p1 k = Some z"
    using getAllDomainRecords_keeps [OF assms, of T zone] g by simp
  with g assms show ?thesis
    by (auto simp: getDNSRecord_def Let_def split: sum.splits)
qed

lemma deleteDNSRecord_keeps:
  assumes "zones p k = Some z"
  shows "zones (snd (deleteDNSRecord T p zone record)) k = Some z"
proof -
  obtain r1 p1 where g: "getDomainInfo T p zone = (r1, p1)"
    by (cases "getDomainInfo T p zone")
  have z1: "zones p1 k = Some z"
    using getDomainInfo_keeps [OF assms, of T zone] g by simp
  obtain r2 p2 where h: "getDNSRecord T p1 zone record = (r2, p2)"
    by (cases "getDNSRecord T p1 zone record")
  have z2: "zones p2 k = Some z"
    using getDNSRecord_keeps [OF z1, of T zone "record"] h by simp
  show ?thesis
  proof (cases r1)
    case (Inl e)
    with g z1 show ?thesis by (simp add: deleteDNSRecord_def)
  next
    case domain: (Inr domain)
    show ?thesis
    proof (cases r2)
      case (Inl e)
      with g domain h z2 show ?thesis by (simp add: deleteDNSRecord_def)
    next
      case (Inr dsrecord)
      obtain r3 p3 where d: "doRequest T p2 (DELETE_dns (zone_ID domain) (ID dsrecord)) = (r3, p3)"
        by (cases "doRequest T p2 (DELETE_dns (zone_ID domain) (ID dsrecord))")
      then have "zones p3 = zones p2"
        using doRequest_zones [of T p2 "DELETE_dns (zone_ID domain) (ID dsrecord)"] by simp
      with g domain h Inr d z2 show ?thesis
        by (auto simp: deleteDNSRecord_def split: sum.splits)
    qed
  qed
qed

lemma createDNSRecord_keeps:
  assumes "zones p k = Some z"
  shows "zones (snd (createDNSRecord T p zone record)) k = Some z"
proof -
  obtain r1 p1 where g: "getDomainInfo T p zone = (r1, p1)"
    by (cases "getDomainInfo T p zone")
  have z1: "zones p1 k = Some z"
    using getDomainInfo_keeps [OF assms, of T zone] g by simp
  show ?thesis
  proof (cases r1)
    case (Inl e)
    with g z1 show ?thesis by (simp add: createDNSRecord_def)
  next
    case (Inr domain)
    define rec1 where "rec1 = record\<lparr>Host := normalizeRecordName (Host record) zone\<rparr>"
    define reqData where
      "reqData = (if TTL rec1 = 0 then rec1\<lparr>TTL := defaultTtl_seconds\<rparr> else rec1)"
    obtain r2 p2 where d: "doRequest T p1 (POST_dns (zone_ID domain) reqData) = (r2, p2)"
      by (cases "doRequest T p1 (POST_dns (zone_ID domain) reqData)")
    then have z2: "zones p2 k = Some z"
      using doRequest_zones [of T p1 "POST_dns (zone_ID domain) reqData"] z1 by simp
    from g Inr d z2 show ?thesis
      by (simp add: createDNSRecord_def Let_def rec1_def [symmetric] reqData_def [symmetric]
          split: sum.splits)
  qed
qed

lemma updateDNSRecord_keeps:
  assumes "zones p k = Some z"
  shows "zones (snd (updateDNSRecord T p zone record)) k = Some z"
proof -
  obtain r1 p1 where g: "getDomainInfo T p zone = (r1, p1)"
    by (cases "getDomainInfo T p zone")
  have z1: "zones p1 k = Some z"
    using getDomainInfo_keeps [OF assms, of T zone] g by simp
  show ?thesis
  proof (cases r1)
    case (Inl e)
    with g z1 show ?thesis by (simp add: updateDNSRecord_def)
  next
    case (Inr domain)
    define reqData where
      "reqData = (if TTL record = 0 then record\<lparr>TTL := defaultTtl_seconds\<rparr> else record)"
    obtain r2 p2 where d:
      "doRequest T p1 (POST_dns_record (zone_ID domain) (ID record) reqData) = (r2, p2)"
      by (cases "doRequest T p1 (POST_dns_record (zone_ID domain) (ID record) reqData)")
    then have z2: "zones p2 k = Some z"
      using doRequest_zones [of T p1 "POST_dns_record (zone_ID domain) (ID record) reqData"] z1
      by simp
    have z3: "zones (snd (getDNSRecord T p2 zone record)) k = Some z"
      using getDNSRecord_keeps [OF z2] .
    from g Inr d z2 z3 show ?thesis
      by (simp add: updateDNSRecord_def Let_def reqData_def [symmetric] split: sum.splits)
  qed
qed

lemma later_keeps_zone:
  "later p q \<Longrightarrow> zones p k = Some z \<Longrightarrow> zones q k = Some z"
proof (induction rule: later.induct)
  case (later_refl p)
  then show ?case by simp
next
  case (later_getDomainInfo p q T zone)
  then show ?case by (simp add: getDomainInfo_keeps)
next
  case (later_getAllDomainRecords p q T zone)
  then show ?case by (simp add: getAllDomainRecords_keeps)
next
  case (later_getDNSRecord p q T zone r)
  then show ?case by (simp add: getDNSRecord_keeps)
next
  case (later_deleteDNSRecord p q T zone r)
  then show ?case by (simp add: deleteDNSRecord_keeps)
next
  case (later_createDNSRecord p q T zone r)
  then show ?case by (simp add: createDNSRecord_keeps)
next
  case (later_updateDNSRecord p q T zone r)
  then show ?case by (simp add: updateDNSRecord_keeps)
next
  case (later_removeRecordFromKnownRecords p q r zone)
  then show ?case by simp
next
  case (later_remote p q w)
  then show ?case by simp
qed

text \<open>
  C7. On a cache miss, when the remote query answers with a list of zones whose length
  is not one, zone resolution returns the error that reports that length and the zone as
  the caller passed it, and stores nothing. When the list has exactly one zone, it is
  returned and stored under the zone string as passed, not under the name that was
  queried. Once a resolution has returned a zone, every resolution of the same string in
  any later state of the provider, with any transport, returns that zone and leaves the
  state as it is: no request is sent.
\<close>

theorem getDomainInfo_contract:
  "(zones p zone = None \<longrightarrow>
      T (remote p) (GET_domains (removeFQDNTrailingDot zone)) = (Inr (Zones zs), w) \<longrightarrow>
      length zs \<noteq> 1 \<longrightarrow>
      getDomainInfo T p zone =
        (Inl (ExpectedOneZone (length zs) zone),
         p\<lparr>remote := w, sent := sent p @ [GET_domains (removeFQDNTrailingDot zone)]\<rparr>))
   \<and> (zones p zone = None \<longrightarrow>
      T (remote p) (GET_domains (removeFQDNTrailingDot zone)) = (Inr (Zones [z]), w) \<longrightarrow>
      getDomainInfo T p zone =
        (Inr z,
         p\<lparr>remote := w, sent := sent p @ [GET_domains (removeFQDNTrailingDot zone)],
           zones := (zones p)(zone \<mapsto> z)\<rparr>))
   \<and> (getDomainInfo T p zone = (Inr z, p1) \<longrightarrow> later p1 p2 \<longrightarrow>
      getDomainInfo T' p2 zone = (Inr z, p2))"
proof (intro conjI impI)
  assume "zones p zone = None"
    and "T (remote p) (GET_domains (removeFQDNTrailingDot zone)) = (Inr (Zones zs), w)"
    and "length zs \<noteq> 1"
  then show "getDomainInfo T p zone =
        (Inl (ExpectedOneZone (length zs) zone),
         p\<lparr>remote := w, sent := sent p @ [GET_domains (removeFQDNTrailingDot zone)]\<rparr>)"
    by (simp add: getDomainInfo_def doRequest_def decodeZones_def)
next
  assume "zones p zone = None"
    and "T (remote p) (GET_domains (removeFQDNTrailingDot zone)) = (Inr (Zones [z]), w)"
  then show "getDomainInfo T p zone =
        (Inr z,
         p\<lparr>remote := w, sent := sent p @ [GET_domains (removeFQDNTrailingDot zone)],
           zones := (zones p)(zone \<mapsto> z)\<rparr>)"
    by (simp add: getDomainInfo_def doRequest_def decodeZones_def)
next
  assume g: "getDomainInfo T p zone = (Inr z, p1)" and l: "later p1 p2"
  from g have "zones p1 zone = Some z"
    by (rule getDomainInfo_Inr_cached)
  with l have "zones p2 zone = Some z"
    by (rule later_keeps_zone)
  then show "getDomainInfo T' p2 zone = (Inr z, p2)"
    by (rule getDomainInfo_hit)
qed

lemma normalize_examples:
  "removeFQDNTrailingDot ''example.com.'' = ''example.com''"
  "removeFQDNTrailingDot ''example.com'' = ''example.com''"
  "removeFQDNTrailingDot ''missing.org'' = ''missing.org''"
  "normalizeRecordName ''test1.example.com.'' ''example.com'' = ''test1''"
  "normalizeRecordName ''test1'' ''example.com'' = ''test1''"
  by (simp_all add: normalizeRecordName_def removeFQDNTrailingDot_def TrimSuffix_def
      HasSuffix_def)

text \<open>
  With the example remote side: \<open>missing.org\<close> has no zone; \<open>example.com.\<close> is
  resolved by querying \<open>example.com\<close> and cached under \<open>example.com.\<close>; after a record
  has been created, the resolution is answered from the cache.
\<close>

theorem getDomainInfo_contract_witness:
  "getDomainInfo example_remote (example_provider [] Map.empty) ''missing.org'' =
     (Inl (ExpectedOneZone 0 ''missing.org''),
      (example_provider [] Map.empty)\<lparr>sent := [GET_domains ''missing.org'']\<rparr>)
   \<and> getDomainInfo example_remote (example_provider [] Map.empty) ''example.com.'' =
     (Inr example_zone,
      (example_provider [] Map.empty)
        \<lparr>sent := [GET_domains ''example.com''], zones := [''example.com.'' \<mapsto> example_zone]\<rparr>)
   \<and> getDomainInfo example_remote
        (snd (createDNSRecord example_remote
           ((example_provider [] Map.empty)
              \<lparr>sent := [GET_domains ''example.com''],
               zones := [''example.com.'' \<mapsto> example_zone]\<rparr>)
           ''example.com.'' (www_record 0 ''test1'' ''test1'')))
        ''example.com.'' =
     (Inr example_zone,
      snd (createDNSRecord example_remote
           ((example_provider [] Map.empty)
              \<lparr>sent := [GET_domains ''example.com''],
               zones := [''example.com.'' \<mapsto> example_zone]\<rparr>)
           ''example.com.'' (www_record 0 ''test1'' ''test1'')))"
proof -
  let ?p = "example_provider [] Map.empty"
  let ?p1 = "?p\<lparr>sent := [GET_domains ''example.com''],
               zones := [''example.com.'' \<mapsto> example_zone]\<rparr>"
  let ?p2 = "snd (createDNSRecord example_remote ?p1 ''example.com.'' (www_record 0 ''test1'' ''test1''))"
  have none1: "zones ?p ''missing.org'' = None" and none2: "zones ?p ''example.com.'' = None"
    by (simp_all add: example_provider_def)
  have t1: "example_remote (remote ?p) (GET_domains (removeFQDNTrailingDot ''missing.org''))
            = (Inr (Zones []), remote ?p)"
    by (simp add: example_remote_def example_provider_def example_zone_def normalize_examples)
  have t2: "example_remote (remote ?p) (GET_domains (removeFQDNTrailingDot ''example.com.''))
            = (Inr (Zones [example_zone]), remote ?p)"
    by (simp add: example_remote_def example_provider_def example_zone_def normalize_examples)
  have len: "length ([] :: dsZone list) \<noteq> 1" by simp
  have a: "getDomainInfo example_remote ?p ''missing.org'' =
     (Inl (ExpectedOneZone 0 ''missing.org''), ?p\<lparr>sent := [GET_domains ''missing.org'']\<rparr>)"
    using getDomainInfo_contract [of ?p "''missing.org''" example_remote "[]" "remote ?p",
        THEN conjunct1, rule_format, OF none1 t1 len]
    by (simp add: normalize_examples example_provider_def)
  have b: "getDomainInfo example_remote ?p ''example.com.'' = (Inr example_zone, ?p1)"
    using getDomainInfo_contract [of ?p "''example.com.''" example_remote _ "remote ?p" example_zone,
        THEN conjunct2, THEN conjunct1, rule_format, OF none2 t2]
    by (simp add: normalize_examples example_provider_def)
  have l: "later ?p1 ?p2"
    by (intro later_createDNSRecord later_refl)
  have c: "getDomainInfo example_remote ?p2 ''example.com.'' = (Inr example_zone, ?p2)"
    using getDomainInfo_contract [where p = ?p and zone = "''example.com.''" and T = example_remote
          and z = example_zone and ?p1.0 = ?p1 and ?p2.0 = ?p2 and T' = example_remote,
        THEN conjunct2, THEN conjunct2, rule_format, OF b l] .
  from a b c show ?thesis by blast
qed

section \<open>Properties of delete, create and update\<close>

lemma getDomainInfo_knownRecords:
  "knownRecords (snd (getDomainInfo T p zone)) = knownRecords p"
proof (cases "zones p zone")
  case None
  obtain res q where d: "doRequest T p (GET_domains (removeFQDNTrailingDot zone)) = (res, q)"
    by (cases "doRequest T p (GET_domains (removeFQDNTrailingDot zone))")
  then have "knownRecords q = knownRecords p"
    using doRequest_knownRecords [of T p "GET_domains (removeFQDNTrailingDot zone)"] by simp
  with None d show ?thesis
    by (auto simp: getDomainInfo_def split: sum.splits)
next
  case (Some a)
  then show ?thesis by (simp add: getDomainInfo_def)
qed

lemma getDomainInfo_sent:
  assumes "getDomainInfo T p zone = (Inr domain, p1)"
  shows "sent p1 = sent p @
           (if zones p zone = None then [GET_domains (removeFQDNTrailingDot zone)] else [])"
proof (cases "zones p zone")
  case None
  obtain res q where d: "doRequest T p (GET_domains (removeFQDNTrailingDot zone)) = (res, q)"
    by (cases "doRequest T p (GET_domains (removeFQDNTrailingDot zone))")
  then have "sent q = sent p @ [GET_domains (removeFQDNTrailingDot zone)]"
    using doRequest_sent [of T p "GET_domains (removeFQDNTrailingDot zone)"] by simp
  with None d assms show ?thesis
    by (auto simp: getDomainInfo_def split: sum.splits if_splits)
next
  case (Some a)
  with assms show ?thesis by (auto simp: getDomainInfo_def)
qed

lemma getRecordFromKnownRecords_cong:
  "knownRecords p = knownRecords q \<Longrightarrow>
   getRecordFromKnownRecords record zone p = getRecordFromKnownRecords record zone q"
  by (simp add: getRecordFromKnownRecords_def)

text \<open>
  C6. When the zone resolves, the record is absent from the cache, the refresh of the
  zone succeeds and the record is absent from the refreshed records too, the delete
  operation returns success. The only requests it sends are the domain query (when the
  zone was not resolved before) and the listing of the zone's records: the log holds no
  more delete requests than before. The refreshed records are now the cache of the zone.
\<close>

theorem deleteDNSRecord_absent_noop:
  assumes "getDomainInfo T p zone = (Inr domain, p1)"
    and "getRecordFromKnownRecords record zone p = dsDNSRecord_zero"
    and "T (remote p1) (GET_dns (zone_ID domain)) = (Inr (Records result), w)"
    and "findKnownRecord record result = dsDNSRecord_zero"
  shows "deleteDNSRecord T p zone record =
           (Inr (),
            p1\<lparr>remote := w, sent := sent p1 @ [GET_dns (zone_ID domain)],
               knownRecords := (knownRecords p1)(zone \<mapsto> result)\<rparr>)
       \<and> sent p1 @ [GET_dns (zone_ID domain)] =
           sent p @ (if zones p zone = None then [GET_domains (removeFQDNTrailingDot zone)] else [])
                  @ [GET_dns (zone_ID domain)]
       \<and> filter is_DELETE (sent p1 @ [GET_dns (zone_ID domain)]) = filter is_DELETE (sent p)"
proof -
  let ?p2 = "p1\<lparr>remote := w, sent := sent p1 @ [GET_dns (zone_ID domain)],
               knownRecords := (knownRecords p1)(zone \<mapsto> result)\<rparr>"
  have cached: "zones p1 zone = Some domain"
    using assms(1) by (rule getDomainInfo_Inr_cached)
  have k1: "knownRecords p1 = knownRecords p"
    using getDomainInfo_knownRecords [of T p zone] assms(1) by simp
  have miss: "getRecordFromKnownRecords record zone p1 = dsDNSRecord_zero"
    using assms(2) getRecordFromKnownRecords_cong [OF k1] by simp
  have refresh: "getAllDomainRecords T p1 zone = (Inr result, ?p2)"
    using assms(3)
    by (simp add: getAllDomainRecords_def getDomainInfo_hit [OF cached] doRequest_def
        decodeRecords_def)
  have still: "getRecordFromKnownRecords record zone ?p2 = dsDNSRecord_zero"
    using assms(4) by (simp add: getRecordFromKnownRecords_def)
  have look: "getDNSRecord T p1 zone record = (Inr dsDNSRecord_zero, ?p2)"
    using miss refresh still by (simp add: getDNSRecord_def Let_def)
  have del: "deleteDNSRecord T p zone record = (Inr (), ?p2)"
    using assms(1) look by (simp add: deleteDNSRecord_def)
  have s: "sent p1 = sent p @
           (if zones p zone = None then [GET_domains (removeFQDNTrailingDot zone)] else [])"
    using assms(1) by (rule getDomainInfo_sent)
  have f: "filter is_DELETE (sent p1 @ [GET_dns (zone_ID domain)]) = filter is_DELETE (sent p)"
    by (simp add: s is_DELETE_def)
  from del s f show ?thesis by simp
qed

text \<open>Deleting a record that was never created, from a zone that holds another record.\<close>

theorem deleteDNSRecord_absent_noop_witness:
  "getDomainInfo example_remote (example_provider [www_record 5 ''other'' ''x''] Map.empty)
     ''example.com'' =
     (Inr example_zone,
      (example_provider [www_record 5 ''other'' ''x''] Map.empty)
        \<lparr>sent := [GET_domains ''example.com''], zones := [''example.com'' \<mapsto> example_zone]\<rparr>)
   \<and> getRecordFromKnownRecords (www_record 0 ''never'' ''created'') ''example.com''
        (example_provider [www_record 5 ''other'' ''x''] Map.empty) = dsDNSRecord_zero
   \<and> findKnownRecord (www_record 0 ''never'' ''created'') [www_record 5 ''other'' ''x'']
        = dsDNSRecord_zero
   \<and> deleteDNSRecord example_remote (example_provider [www_record 5 ''other'' ''x''] Map.empty)
        ''example.com'' (www_record 0 ''never'' ''created'') =
       (Inr (),
        (example_provider [www_record 5 ''other'' ''x''] Map.empty)
          \<lparr>sent := [GET_domains ''example.com'', GET_dns 42],
           zones := [''example.com'' \<mapsto> example_zone],
           knownRecords := [''example.com'' \<mapsto> [www_record 5 ''other'' ''x'']]\<rparr>)"
proof -
  let ?p = "example_provider [www_record 5 ''other'' ''x''] Map.empty"
  let ?p1 = "?p\<lparr>sent := [GET_domains ''example.com''],
                 zones := [''example.com'' \<mapsto> example_zone]\<rparr>"
  let ?r = "www_record 0 ''never'' ''created''"
  have h1: "getDomainInfo example_remote ?p ''example.com'' = (Inr example_zone, ?p1)"
    by (simp add: getDomainInfo_def doRequest_def decodeZones_def example_remote_def
        example_provider_def example_zone_def normalize_examples)
  have h2: "getRecordFromKnownRecords ?r ''example.com'' ?p = dsDNSRecord_zero"
    by (simp add: getRecordFromKnownRecords_def example_provider_def)
  have h3: "example_remote (remote ?p1) (GET_dns (zone_ID example_zone)) =
              (Inr (Records [www_record 5 ''other'' ''x'']), remote ?p1)"
    by (simp add: example_remote_def example_provider_def)
  have h4: "findKnownRecord ?r [www_record 5 ''other'' ''x''] = dsDNSRecord_zero"
    by (simp add: www_record_def)
  from deleteDNSRecord_absent_noop [OF h1 h2 h3 h4, THEN conjunct1]
  have "deleteDNSRecord example_remote ?p ''example.com'' ?r =
       (Inr (),
        ?p\<lparr>sent := [GET_domains ''example.com'', GET_dns 42],
           zones := [''example.com'' \<mapsto> example_zone],
           knownRecords := [''example.com'' \<mapsto> [www_record 5 ''other'' ''x'']]\<rparr>)"
    by (simp add: example_provider_def example_zone_def)
  with h1 h2 h4 show ?thesis by blast
qed

text \<open>
  What a successful create returns and sends, given the resolved zone and the answer of
  the transport to the create request.
\<close>

lemma createDNSRecord_value:
  assumes "getDomainInfo T p zone = (Inr domain, p1)"
    and "T (remote p1)
           (POST_dns (zone_ID domain)
              (record\<lparr>Host := normalizeRecordName (Host record) zone,
                      TTL := (if TTL record = 0 then 120 else TTL record)\<rparr>))
         = (Inr (OneRecord result), w)"
  shows "createDNSRecord T p zone record =
           (Inr (record\<lparr>Host := normalizeRecordName (Host record) zone, ID := ID result\<rparr>),
            p1\<lparr>remote := w,
               sent := sent p1 @
                 [POST_dns (zone_ID domain)
                    (record\<lparr>Host := normalizeRecordName (Host record) zone,
                            TTL := (if TTL record = 0 then 120 else TTL record)\<rparr>)]\<rparr>)"
proof (cases "TTL record = 0")
  case True
  with assms show ?thesis
    by (simp add: createDNSRecord_def Let_def doRequest_def decodeRecord_def
        defaultTtl_seconds_def)
next
  case False
  with assms show ?thesis
    by (simp add: createDNSRecord_def Let_def doRequest_def decodeRecord_def
        defaultTtl_seconds_def)
qed

text \<open>
  C10. When the zone resolves and the transport answers the create request with a
  record, create returns the caller's record with the host normalized and the identifier
  of the answer, and nothing else of the answer. The body of the request is the caller's
  record with the host normalized and, when the caller's time-to-live is zero, the
  time-to-live 120; the returned record keeps the caller's time-to-live.
\<close>

theorem createDNSRecord_returns_input:
  assumes "getDomainInfo T p zone = (Inr domain, p1)"
    and "T (remote p1)
           (POST_dns (zone_ID domain)
              (record\<lparr>Host := normalizeRecordName (Host record) zone,
                      TTL := (if TTL record = 0 then 120 else TTL record)\<rparr>))
         = (Inr (OneRecord result), w)"
  shows "createDNSRecord T p zone record =
           (Inr (record\<lparr>Host := normalizeRecordName (Host record) zone, ID := ID result\<rparr>),
            p1\<lparr>remote := w,
               sent := sent p1 @
                 [POST_dns (zone_ID domain)
                    (record\<lparr>Host := normalizeRecordName (Host record) zone,
                            TTL := (if TTL record = 0 then 120 else TTL record)\<rparr>)]\<rparr>)
       \<and> TTL (record\<lparr>Host := normalizeRecordName (Host record) zone, ID := ID result\<rparr>)
           = TTL record"
  using createDNSRecord_value [OF assms] by simp

text \<open>Every successful create returns the input with the host normalized, up to the
  identifier.\<close>

lemma createDNSRecord_success_fields:
  assumes "createDNSRecord T p zone record = (Inr r, p')"
  shows "r\<lparr>ID := ID record\<rparr> = record\<lparr>Host := normalizeRecordName (Host record) zone\<rparr>"
proof -
  obtain r1 p1 where g: "getDomainInfo T p zone = (r1, p1)"
    by (cases "getDomainInfo T p zone")
  define rec1 where "rec1 = record\<lparr>Host := normalizeRecordName (Host record) zone\<rparr>"
  define reqData where
    "reqData = (if TTL rec1 = 0 then rec1\<lparr>TTL := defaultTtl_seconds\<rparr> else rec1)"
  from assms g obtain domain where r1: "r1 = Inr domain"
    by (cases r1) (auto simp: createDNSRecord_def)
  obtain r2 p2 where d: "doRequest T p1 (POST_dns (zone_ID domain) reqData) = (r2, p2)"
    by (cases "doRequest T p1 (POST_dns (zone_ID domain) reqData)")
  from assms g r1 d have "r\<lparr>ID := ID record\<rparr> = rec1\<lparr>ID := ID record\<rparr>"
    by (auto simp: createDNSRecord_def Let_def rec1_def [symmetric] reqData_def [symmetric]
        split: sum.splits)
  then show ?thesis
    by (simp add: rec1_def)
qed

text \<open>
  Creating \<open>test1.example.com.\<close> with time-to-live zero: the request carries 120 and
  the remote side stores and echoes 120, the returned record carries zero.
\<close>

theorem createDNSRecord_returns_input_witness:
  "getDomainInfo example_remote (example_provider [] Map.empty) ''example.com'' =
     (Inr example_zone,
      (example_provider [] Map.empty)
        \<lparr>sent := [GET_domains ''example.com''], zones := [''example.com'' \<mapsto> example_zone]\<rparr>)
   \<and> fst (createDNSRecord example_remote (example_provider [] Map.empty) ''example.com''
        ((www_record 0 ''test1.example.com.'' ''test1'')\<lparr>TTL := 0\<rparr>))
       = Inr ((www_record 100 ''test1'' ''test1'')\<lparr>TTL := 0\<rparr>)
   \<and> sent (snd (createDNSRecord example_remote (example_provider [] Map.empty) ''example.com''
        ((www_record 0 ''test1.example.com.'' ''test1'')\<lparr>TTL := 0\<rparr>)))
       = [GET_domains ''example.com'', POST_dns 42 (www_record 0 ''test1'' ''test1'')]
   \<and> remote_records (remote (snd (createDNSRecord example_remote
        (example_provider [] Map.empty) ''example.com''
        ((www_record 0 ''test1.example.com.'' ''test1'')\<lparr>TTL := 0\<rparr>))))
       = [www_record 100 ''test1'' ''test1'']"
proof -
  let ?p = "example_provider [] Map.empty"
  let ?p1 = "?p\<lparr>sent := [GET_domains ''example.com''],
                 zones := [''example.com'' \<mapsto> example_zone]\<rparr>"
  let ?r = "(www_record 0 ''test1.example.com.'' ''test1'')\<lparr>TTL := 0\<rparr>"
  have h1: "getDomainInfo example_remote ?p ''example.com'' = (Inr example_zone, ?p1)"
    by (simp add: getDomainInfo_def doRequest_def decodeZones_def example_remote_def
        example_provider_def example_zone_def normalize_examples)
  have h2: "example_remote (remote ?p1)
           (POST_dns (zone_ID example_zone)
              (?r\<lparr>Host := normalizeRecordName (Host ?r) ''example.com'',
                   TTL := (if TTL ?r = 0 then 120 else TTL ?r)\<rparr>))
         = (Inr (OneRecord (www_record 100 ''test1'' ''test1'')),
            (remote ?p1)\<lparr>remote_records := [www_record 100 ''test1'' ''test1''],
                          next_id := 101\<rparr>)"
    by (simp add: example_remote_def example_provider_def www_record_def normalize_examples)
  from createDNSRecord_returns_input [OF h1 h2, THEN conjunct1]
  have "createDNSRecord example_remote ?p ''example.com'' ?r =
          (Inr ((www_record 100 ''test1'' ''test1'')\<lparr>TTL := 0\<rparr>),
           ?p1\<lparr>remote := (remote ?p1)\<lparr>remote_records := [www_record 100 ''test1'' ''test1''],
                          next_id := 101\<rparr>,
                sent := [GET_domains ''example.com'', POST_dns 42 (www_record 0 ''test1'' ''test1'')]\<rparr>)"
    by (simp add: example_provider_def example_zone_def www_record_def normalize_examples)
  with h1 show ?thesis by simp
qed


text \<open>When the cache has no matching entry, the zone is fetched again after the update
  and the match among the fresh records is returned.\<close>

lemma updateDNSRecord_cache_miss:
  assumes "getDomainInfo T p zone = (Inr domain, p1)"
    and "T (remote p1)
           (POST_dns_record (zone_ID domain) (ID record)
              (if TTL record = 0 then record\<lparr>TTL := defaultTtl_seconds\<rparr> else record))
         = (Inr (OneRecord result), w)"
    and "getRecordFromKnownRecords record zone p = dsDNSRecord_zero"
    and "T w (GET_dns (zone_ID domain)) = (Inr (Records fresh), w')"
  shows "fst (updateDNSRecord T p zone record) = Inr (findKnownRecord record fresh)"
proof -
  let ?req = "POST_dns_record (zone_ID domain) (ID record)
                (if TTL record = 0 then record\<lparr>TTL := defaultTtl_seconds\<rparr> else record)"
  let ?p2 = "p1\<lparr>remote := w, sent := sent p1 @ [?req]\<rparr>"
  let ?p3 = "?p2\<lparr>remote := w', sent := sent ?p2 @ [GET_dns (zone_ID domain)],
                 knownRecords := (knownRecords ?p2)(zone \<mapsto> fresh)\<rparr>"
  have cached: "zones ?p2 zone = Some domain"
    using getDomainInfo_Inr_cached [OF assms(1)] by simp
  have k1: "knownRecords p1 = knownRecords p"
    using getDomainInfo_knownRecords [of T p zone] assms(1) by simp
  have same: "getRecordFromKnownRecords record zone ?p2 = getRecordFromKnownRecords record zone p"
    by (rule getRecordFromKnownRecords_cong) (simp add: k1)
  have refresh: "getAllDomainRecords T ?p2 zone = (Inr fresh, ?p3)"
    using assms(4)
    by (simp add: getAllDomainRecords_def getDomainInfo_hit [OF cached] doRequest_def
        decodeRecords_def)
  have found: "getRecordFromKnownRecords record zone ?p3 = findKnownRecord record fresh"
    by (simp add: getRecordFromKnownRecords_def)
  have look: "getDNSRecord T ?p2 zone record = (Inr (findKnownRecord record fresh), ?p3)"
    unfolding getDNSRecord_def Let_def same assms(3) refresh
    using found by simp
  have d: "doRequest T p1 ?req = (Inr (OneRecord result), ?p2)"
    using assms(2) by (simp add: doRequest_def)
  show ?thesis
    using assms(1) d look
    by (simp add: updateDNSRecord_def Let_def decodeRecord_def)
qed


text \<open>
  The forward mapping never sets an identifier, so an upsert through \<open>SetRecords\<close>
  always creates: setting \<open>test1\<close> to \<open>new_value\<close> adds a second record.
\<close>

lemma libdnsRecordTodsDNSRecord_ID_zero:
  "libdnsRecordTodsDNSRecord toRR r = Inr dsrr \<Longrightarrow> ID dsrr = 0"
  by (cases r) (auto simp: libdnsRecordTodsDNSRecord_def Let_def dsDNSRecord_zero_def)

lemma SetRecords_apply_creates:
  "libdnsRecordTodsDNSRecord toRR r = Inr dsrr \<Longrightarrow>
   createOrUpdateDNSRecord T p zone dsrr = createDNSRecord T p zone dsrr"
  by (simp add: createOrUpdateDNSRecord_def libdnsRecordTodsDNSRecord_ID_zero)

lemma SetRecords_creates_a_duplicate:
  "fst (SetRecords flattened_view generic_Parse example_remote
     (example_provider [www_record 7 ''test1'' ''test1'']
        [''example.com'' \<mapsto> [www_record 7 ''test1'' ''test1'']])
     ''example.com'' [RR_Record new_value_record])
   = Inr [RR_Record new_value_record]
   \<and> sent (snd (SetRecords flattened_view generic_Parse example_remote
     (example_provider [www_record 7 ''test1'' ''test1'']
        [''example.com'' \<mapsto> [www_record 7 ''test1'' ''test1'']])
     ''example.com'' [RR_Record new_value_record]))
   = [GET_domains ''example.com'', POST_dns 42 (www_record 0 ''test1'' ''new_value'')]
   \<and> remote_records (remote (snd (SetRecords flattened_view generic_Parse example_remote
     (example_provider [www_record 7 ''test1'' ''test1'']
        [''example.com'' \<mapsto> [www_record 7 ''test1'' ''test1'']])
     ''example.com'' [RR_Record new_value_record])))
   = [www_record 7 ''test1'' ''test1'', www_record 100 ''test1'' ''new_value'']"
proof -
  let ?old = "www_record 7 ''test1'' ''test1''"
  let ?p = "example_provider [?old] [''example.com'' \<mapsto> [?old]]"
  let ?p1 = "?p\<lparr>sent := [GET_domains ''example.com''],
                 zones := [''example.com'' \<mapsto> example_zone]\<rparr>"
  have conv: "libdnsRecordTodsDNSRecord flattened_view (RR_Record new_value_record)
                = Inr (www_record 0 ''test1'' ''new_value'')"
    by (simp add: libdnsRecordTodsDNSRecord_def flattened_view_def new_value_record_def
        www_record_def dsDNSRecord_zero_def Seconds_int_def Let_def)
  have reconv: "libdnsRecord generic_Parse (www_record 100 ''test1'' ''new_value'')
                = Inr (RR_Record new_value_record)"
    by (simp add: libdnsRecord_def generic_Parse_def new_value_record_def www_record_def
        Second_def)
  have h1: "getDomainInfo example_remote ?p ''example.com'' = (Inr example_zone, ?p1)"
    by (simp add: getDomainInfo_def doRequest_def decodeZones_def example_remote_def
        example_provider_def example_zone_def normalize_examples)
  have h2: "example_remote (remote ?p1)
           (POST_dns (zone_ID example_zone)
              ((www_record 0 ''test1'' ''new_value'')
                 \<lparr>Host := normalizeRecordName (Host (www_record 0 ''test1'' ''new_value'')) ''example.com'',
                  TTL := (if TTL (www_record 0 ''test1'' ''new_value'') = 0 then 120
                          else TTL (www_record 0 ''test1'' ''new_value''))\<rparr>))
         = (Inr (OneRecord (www_record 100 ''test1'' ''new_value'')),
            (remote ?p1)\<lparr>remote_records := [?old, www_record 100 ''test1'' ''new_value''],
                          next_id := 101\<rparr>)"
    by (simp add: example_remote_def example_provider_def www_record_def normalize_examples)
  have create: "createDNSRecord example_remote ?p ''example.com'' (www_record 0 ''test1'' ''new_value'')
      = (Inr (www_record 100 ''test1'' ''new_value''),
         ?p1\<lparr>remote := (remote ?p1)\<lparr>remote_records := [?old, www_record 100 ''test1'' ''new_value''],
                          next_id := 101\<rparr>,
             sent := [GET_domains ''example.com'', POST_dns 42 (www_record 0 ''test1'' ''new_value'')]\<rparr>)"
    using createDNSRecord_value [OF h1 h2]
    by (simp add: www_record_def normalize_examples example_zone_def example_provider_def)
  have zero: "ID (www_record 0 ''test1'' ''new_value'') = 0"
    by (simp add: www_record_def)
  show ?thesis
    by (simp add: SetRecords_def conv createOrUpdateDNSRecord_def zero create reconv)
qed

end
